theory Spec2Isabelle
  imports Main
begin

section \<open>Tokens and the syntax tree\<close>

text \<open>
  Modelled from the spec: the packages \<open>token\<close> and \<open>ast\<close> are used by the instrumenter
  but are not among the sources at hand. The spec says that every node carries a
  source-position token (file, line, column) and lists the statement and expression kinds
  (section 3). A token keeps the fields the instrumenter reads or writes; a \<open>Meta\<close> keeps
  the token. The kinds the instrumenter does not tell apart are kept by their Go type name:
  \<open>OtherStatement\<close> stands for the statements of its default case (esi, restart, declare,
  unset, remove, break, fallthrough, goto, include), \<open>OtherExpression\<close> for the terminal
  expressions besides identifiers and strings, \<open>OtherDeclaration\<close> for the root
  declarations that are not subroutines.
\<close>

datatype TokenType = STRING | OtherTokenType string

record Token =
  TokenType :: TokenType
  Literal :: string
  Line :: int
  Position :: int
  File :: string

datatype Meta = Meta (Token: Token)

datatype Ident = Ident Meta string

datatype Expression =
    ast_Ident Ident
  | ast_String Meta string
  | FunctionCallExpression Meta Ident "Expression list"
  | GroupedExpression Meta Expression
  | InfixExpression Meta Expression string Expression
  | PostfixExpression Meta Expression string
  | PrefixExpression Meta string Expression
  | IfExpression Meta Expression Expression Expression
  | OtherExpression string Meta

text \<open>
  \<open>IfStmt keyword meta condition consequence another alternative\<close> is the Go struct
  \<open>ast.IfStatement\<close>: \<open>another\<close> is the flat list of else-if clauses, \<open>alternative\<close> the
  optional else. \<open>CaseStmt meta test statements fallthrough\<close> is \<open>ast.CaseStatement\<close>,
  \<open>SwitchStmt meta control cases default\<close> is \<open>ast.SwitchStatement\<close>.
\<close>

datatype Statement =
    BlockStatement Block
  | IfStatement IfStmt
  | SwitchStatement SwitchStmt
  | FunctionCallStatement Meta Ident "Expression list"
  | ErrorStatement Meta "Expression option" "Expression option"
  | ReturnStatement Meta "Expression option"
  | SetStatement Meta Ident string Expression
  | AddStatement Meta Ident string Expression
  | LogStatement Meta Expression
  | SyntheticStatement Meta Expression
  | SyntheticBase64Statement Meta Expression
  | OtherStatement string Meta
and Block = Block Meta "Statement list"
and IfStmt = IfStmt string Meta Expression Block "IfStmt list" "ElseStmt option"
and ElseStmt = ElseStmt Meta Block
and SwitchStmt = SwitchStmt Meta Expression "CaseStmt list" int
and CaseStmt = CaseStmt Meta "Expression option" "Statement list" bool

datatype Declaration =
    SubroutineDeclaration Meta Ident Block
  | OtherDeclaration string Meta

datatype VCL = VCL "Declaration list"

text \<open>
  The Go code hands nodes to the marker factory as \<open>ast.Node\<close>, an interface value that
  holds a pointer. The factory reads the node's \<open>Meta\<close> and stores the reference. A
  reference is modelled by the node's Go type name and its \<open>Meta\<close>.
\<close>

datatype Node = Node (NodeType: string) (GetMeta: Meta)

fun IfStmt_Node :: "IfStmt \<Rightarrow> Node" where
  "IfStmt_Node (IfStmt keyword m condition consequence another alternative) =
     Node ''*ast.IfStatement'' m"

text \<open>Reading and assigning the field \<open>Alternative\<close> of an \<open>ast.IfStatement\<close>.\<close>

fun IfStmt_Alternative :: "IfStmt \<Rightarrow> ElseStmt option" where
  "IfStmt_Alternative (IfStmt keyword m condition consequence another alternative) = alternative"

fun IfStmt_setAlternative :: "IfStmt \<Rightarrow> ElseStmt option \<Rightarrow> IfStmt" where
  "IfStmt_setAlternative (IfStmt keyword m condition consequence another alternative) e =
     IfStmt keyword m condition consequence another e"

fun SwitchStmt_Node :: "SwitchStmt \<Rightarrow> Node" where
  "SwitchStmt_Node (SwitchStmt m control cases dflt) = Node ''*ast.SwitchStatement'' m"

section \<open>The coverage registry\<close>

text \<open>
  Modelled from the spec: the package \<open>shared\<close> with the coverage kinds and the registry
  (\<open>SetupSubroutine\<close>, \<open>SetupStatement\<close>, \<open>SetupBranch\<close>) is not among the sources at
  hand. The spec (sections 2 and 3) describes a table from a marker identifier to the
  originating node and a covered flag, with one registration operation per kind, an entry
  being created uncovered.
\<close>

datatype CoverageType = CoverageTypeSubroutine | CoverageTypeStatement | CoverageTypeBranch

record Coverage =
  Subroutines :: "string \<rightharpoonup> Node \<times> bool"
  Statements :: "string \<rightharpoonup> Node \<times> bool"
  Branches :: "string \<rightharpoonup> Node \<times> bool"

definition SetupSubroutine :: "string \<Rightarrow> Node \<Rightarrow> Coverage \<Rightarrow> Coverage" where
  "SetupSubroutine ident node c =
     c\<lparr>Subroutines := (Subroutines c)(ident \<mapsto> (node, False))\<rparr>"

definition SetupStatement :: "string \<Rightarrow> Node \<Rightarrow> Coverage \<Rightarrow> Coverage" where
  "SetupStatement ident node c =
     c\<lparr>Statements := (Statements c)(ident \<mapsto> (node, False))\<rparr>"

definition SetupBranch :: "string \<Rightarrow> Node \<Rightarrow> Coverage \<Rightarrow> Coverage" where
  "SetupBranch ident node c =
     c\<lparr>Branches := (Branches c)(ident \<mapsto> (node, False))\<rparr>"

text \<open>
  Two constants of packages that are not at hand are parameters of the whole pass:
  \<open>token.Null\<close>, the token of the shared \<open>fake\<close> meta, and the method \<open>String()\<close> of a
  coverage kind, which names the recording built-in.
\<close>

record Externals =
  token_Null :: Token
  CoverageType_String :: "CoverageType \<Rightarrow> string"

definition fake :: "Externals \<Rightarrow> Meta" where
  "fake x = Meta (token_Null x)"

section \<open>The marker factory\<close>

text \<open>Decimal printing of a Go \<open>int\<close>, as \<open>fmt.Sprint\<close> and the verb \<open>%d\<close> do.\<close>

function digits :: "nat \<Rightarrow> string" where
  "digits n = (if n < 10 then [''0123456789'' ! n]
               else digits (n div 10) @ [''0123456789'' ! (n mod 10)])"
  by pat_completeness auto
termination
  by (relation "measure id") auto

declare digits.simps [simp del]

definition Sprint :: "int \<Rightarrow> string" where
  "Sprint i = (if i < 0 then ''-'' @ digits (nat (- i)) else digits (nat i))"

fun strings_Join :: "string list \<Rightarrow> string \<Rightarrow> string" where
  "strings_Join [] sep = []"
| "strings_Join [a] sep = a"
| "strings_Join (a # b # rest) sep = a @ sep @ strings_Join (b # rest) sep"

text \<open>
  \<open>createMarker\<close>: the variadic \<open>suffix\<close> is a list. The result is the marker statement and
  the registry after the registration.
\<close>

definition createMarker ::
  "Externals \<Rightarrow> Coverage \<Rightarrow> CoverageType \<Rightarrow> Node \<Rightarrow> string list
     \<Rightarrow> Statement \<times> Coverage" where
  "createMarker x cov t node suffix =
     (let name = ''coverage.'' @ CoverageType_String x t;
          tok = Token (GetMeta node);
          s = (if length suffix > 0 then ''_'' @ strings_Join suffix ''_'' else []);
          (ident, cov') =
            (case t of
               CoverageTypeSubroutine \<Rightarrow>
                 (let ident = ''sub_'' @ Sprint (Line tok) @ ''_'' @ Sprint (Position tok) @ s
                  in (ident, SetupSubroutine ident node cov))
             | CoverageTypeStatement \<Rightarrow>
                 (let ident = ''stmt_'' @ Sprint (Line tok) @ ''_'' @ Sprint (Position tok) @ s
                  in (ident, SetupStatement ident node cov))
             | CoverageTypeBranch \<Rightarrow>
                 (let ident = ''branch_'' @ Sprint (Line tok) @ ''_'' @ Sprint (Position tok) @ s
                  in (ident, SetupBranch ident node cov)))
      in (FunctionCallStatement (fake x)
            (Ident (Meta \<lparr>TokenType = STRING, Literal = name, Line = 0, Position = 0,
                          File = []\<rparr>) name)
            [ast_String (Meta \<lparr>TokenType = STRING, Literal = ident, Line = 0, Position = 0,
                                File = []\<rparr>) ident],
          cov'))"

section \<open>The expression instrumenter\<close>

text \<open>
  \<open>instrumentIfExpression\<close> reads the node itself (for the markers) and its condition; the
  consequence and the alternative of the expression are not looked at.
\<close>

definition instrumentIfExpression ::
  "Externals \<Rightarrow> Coverage \<Rightarrow> Meta \<Rightarrow> Expression \<Rightarrow> Statement list \<times> Coverage" where
  "instrumentIfExpression x cov m condition =
     (let expr = Node ''*ast.IfExpression'' m;
          (mt, cov1) = createMarker x cov CoverageTypeBranch expr [''true''];
          (mf, cov2) = createMarker x cov1 CoverageTypeBranch expr [''false''];
          branch = IfStmt ''if'' (fake x) condition (Block (fake x) [mt]) []
                     (Some (ElseStmt (fake x) (Block (fake x) [mf])))
      in ([IfStatement branch], cov2))"

text \<open>
  \<open>instrumentArguments\<close> is the loop over an argument list, which the source writes out in
  \<open>instrumentExpression\<close> and in \<open>instrumentFunctionCallStatement\<close>.
\<close>

fun instrumentExpression ::
  "Externals \<Rightarrow> Coverage \<Rightarrow> Expression \<Rightarrow> Statement list \<times> Coverage"
and instrumentArguments ::
  "Externals \<Rightarrow> Coverage \<Rightarrow> Expression list \<Rightarrow> Statement list \<times> Coverage" where
  "instrumentExpression x cov (FunctionCallExpression m f args) = instrumentArguments x cov args"
| "instrumentExpression x cov (GroupedExpression m right) = instrumentExpression x cov right"
| "instrumentExpression x cov (InfixExpression m left operator right) =
     (let (s1, cov1) = instrumentExpression x cov left;
          (s2, cov2) = instrumentExpression x cov1 right
      in (s1 @ s2, cov2))"
| "instrumentExpression x cov (PostfixExpression m left operator) =
     instrumentExpression x cov left"
| "instrumentExpression x cov (PrefixExpression m operator right) =
     instrumentExpression x cov right"
| "instrumentExpression x cov (IfExpression m condition consequence alternative) =
     instrumentIfExpression x cov m condition"
| "instrumentExpression x cov (ast_Ident i) = ([], cov)"
| "instrumentExpression x cov (ast_String m v) = ([], cov)"
| "instrumentExpression x cov (OtherExpression k m) = ([], cov)"
| "instrumentArguments x cov [] = ([], cov)"
| "instrumentArguments x cov (arg # args) =
     (let (s1, cov1) = instrumentExpression x cov arg;
          (s2, cov2) = instrumentArguments x cov1 args
      in (s1 @ s2, cov2))"

section \<open>The statement instrumenter and the two branching rewrites\<close>

definition instrumentFunctionCallStatement ::
  "Externals \<Rightarrow> Coverage \<Rightarrow> Expression list \<Rightarrow> Statement list \<times> Coverage" where
  "instrumentFunctionCallStatement x cov arguments = instrumentArguments x cov arguments"

definition instrumentErrorStatement ::
  "Externals \<Rightarrow> Coverage \<Rightarrow> Meta \<Rightarrow> Expression option \<Rightarrow> Expression option
     \<Rightarrow> Statement list \<times> Coverage" where
  "instrumentErrorStatement x cov m code argument =
     (let (mk, cov1) = createMarker x cov CoverageTypeStatement (Node ''*ast.ErrorStatement'' m) [];
          (s1, cov2) = (case code of None \<Rightarrow> ([], cov1)
                        | Some c \<Rightarrow> instrumentExpression x cov1 c);
          (s2, cov3) = (case argument of None \<Rightarrow> ([], cov2)
                        | Some a \<Rightarrow> instrumentExpression x cov2 a)
      in (mk # s1 @ s2, cov3))"

definition instrumentReturnStatement ::
  "Externals \<Rightarrow> Coverage \<Rightarrow> Meta \<Rightarrow> Expression option \<Rightarrow> Statement list \<times> Coverage" where
  "instrumentReturnStatement x cov m returnExpression =
     (let (mk, cov1) = createMarker x cov CoverageTypeStatement (Node ''*ast.ReturnStatement'' m) [];
          (s1, cov2) = (case returnExpression of None \<Rightarrow> ([], cov1)
                        | Some e \<Rightarrow> instrumentExpression x cov1 e)
      in (mk # s1, cov2))"

text \<open>
  The pass mutates the tree in place. In the model every function returns the node as the
  pass leaves it: \<open>instrumentStatement\<close> returns the statements to put before the statement,
  the statement itself after the pass, and the registry.

  \<open>nestAnother\<close> is the loop of \<open>instrumentIfStatement\<close> over the else-if clauses together
  with the attachment of the root's else that follows it. Its argument \<open>current\<close> is
  \<open>nest.Alternative\<close> as it stands before the loop goes on, its result is
  \<open>nest.Alternative\<close> when the function returns; \<open>branch\<close> is the counter. The clause \<open>a\<close>
  is put into the new else block by reference, so the block holds the clause as the later
  rounds leave it.

  \<open>instrumentCases\<close> is the loop of \<open>instrumentSwitchStatement\<close>.
\<close>

function instrumentStatements ::
  "Externals \<Rightarrow> Coverage \<Rightarrow> Statement list \<Rightarrow> Statement list \<times> Coverage"
and instrumentStatement ::
  "Externals \<Rightarrow> Coverage \<Rightarrow> Statement \<Rightarrow> (Statement list \<times> Statement) \<times> Coverage"
and instrumentIfStatement ::
  "Externals \<Rightarrow> Coverage \<Rightarrow> IfStmt \<Rightarrow> IfStmt \<times> Coverage"
and nestAnother ::
  "Externals \<Rightarrow> Coverage \<Rightarrow> Node \<Rightarrow> int \<Rightarrow> ElseStmt option \<Rightarrow> IfStmt list \<Rightarrow> ElseStmt option
     \<Rightarrow> ElseStmt option \<times> Coverage"
and instrumentSwitchStatement ::
  "Externals \<Rightarrow> Coverage \<Rightarrow> SwitchStmt \<Rightarrow> SwitchStmt \<times> Coverage"
and instrumentCases ::
  "Externals \<Rightarrow> Coverage \<Rightarrow> Node \<Rightarrow> int \<Rightarrow> CaseStmt list \<Rightarrow> CaseStmt list \<times> Coverage"
where
  "instrumentStatements x cov [] = ([], cov)"
| "instrumentStatements x cov (stmt # stmts) =
     (let ((pre, stmt'), cov1) = instrumentStatement x cov stmt;
          (rest, cov2) = instrumentStatements x cov1 stmts
      in (pre @ stmt' # rest, cov2))"
| "instrumentStatement x cov (BlockStatement (Block m ss)) =
     (let (ss', cov1) = instrumentStatements x cov ss
      in (([], BlockStatement (Block m ss')), cov1))"
| "instrumentStatement x cov (IfStatement t) =
     (let (mk, cov1) = createMarker x cov CoverageTypeStatement (IfStmt_Node t) [];
          (t', cov2) = instrumentIfStatement x cov1 t
      in (([mk], IfStatement t'), cov2))"
| "instrumentStatement x cov (SwitchStatement t) =
     (let (mk, cov1) = createMarker x cov CoverageTypeStatement (SwitchStmt_Node t) [];
          (t', cov2) = instrumentSwitchStatement x cov1 t
      in (([mk], SwitchStatement t'), cov2))"
| "instrumentStatement x cov (FunctionCallStatement m f arguments) =
     (let (pre, cov1) = instrumentFunctionCallStatement x cov arguments
      in ((pre, FunctionCallStatement m f arguments), cov1))"
| "instrumentStatement x cov (ErrorStatement m code argument) =
     (let (pre, cov1) = instrumentErrorStatement x cov m code argument
      in ((pre, ErrorStatement m code argument), cov1))"
| "instrumentStatement x cov (ReturnStatement m e) =
     (let (pre, cov1) = instrumentReturnStatement x cov m e
      in ((pre, ReturnStatement m e), cov1))"
| "instrumentStatement x cov (SetStatement m i operator v) =
     (let (mk, cov1) = createMarker x cov CoverageTypeStatement (Node ''*ast.SetStatement'' m) [];
          (pre, cov2) = instrumentExpression x cov1 v
      in ((mk # pre, SetStatement m i operator v), cov2))"
| "instrumentStatement x cov (AddStatement m i operator v) =
     (let (mk, cov1) = createMarker x cov CoverageTypeStatement (Node ''*ast.AddStatement'' m) [];
          (pre, cov2) = instrumentExpression x cov1 v
      in ((mk # pre, AddStatement m i operator v), cov2))"
| "instrumentStatement x cov (LogStatement m v) =
     (let (mk, cov1) = createMarker x cov CoverageTypeStatement (Node ''*ast.LogStatement'' m) [];
          (pre, cov2) = instrumentExpression x cov1 v
      in ((mk # pre, LogStatement m v), cov2))"
| "instrumentStatement x cov (SyntheticStatement m v) =
     (let (mk, cov1) = createMarker x cov CoverageTypeStatement
                         (Node ''*ast.SyntheticStatement'' m) [];
          (pre, cov2) = instrumentExpression x cov1 v
      in ((mk # pre, SyntheticStatement m v), cov2))"
| "instrumentStatement x cov (SyntheticBase64Statement m v) =
     (let (mk, cov1) = createMarker x cov CoverageTypeStatement
                         (Node ''*ast.SyntheticBase64Statement'' m) [];
          (pre, cov2) = instrumentExpression x cov1 v
      in ((mk # pre, SyntheticBase64Statement m v), cov2))"
| "instrumentStatement x cov (OtherStatement k m) =
     (let (mk, cov1) = createMarker x cov CoverageTypeStatement (Node k m) []
      in (([mk], OtherStatement k m), cov1))"
| "instrumentIfStatement x cov (IfStmt keyword m condition (Block bm ss) another alternative) =
     (let stmt = Node ''*ast.IfStatement'' m;
          (mk, cov1) = createMarker x cov CoverageTypeBranch stmt [Sprint 1];
          (ss', cov2) = instrumentStatements x cov1 ss;
          (alternative', cov3) = nestAnother x cov2 stmt 1 alternative another alternative
      in (IfStmt keyword m condition (Block bm (mk # ss')) [] alternative', cov3))"
| "nestAnother x cov stmt branch current [] None = (current, cov)"
| "nestAnother x cov stmt branch current [] (Some (ElseStmt m (Block bm ss))) =
     (let (mk, cov1) = createMarker x cov CoverageTypeBranch stmt [Sprint (branch + 1)];
          (ss', cov2) = instrumentStatements x cov1 ss
      in (Some (ElseStmt m (Block bm (mk # ss'))), cov2))"
| "nestAnother x cov stmt branch current
     (IfStmt keyword m condition consequence another' alternative' # rest) alternative =
     (let (a, cov1) = instrumentIfStatement x cov
                        (IfStmt ''if'' m condition consequence another' alternative');
          (mk, cov2) = createMarker x cov1 CoverageTypeBranch stmt [Sprint (branch + 1)];
          (nested, cov3) =
            nestAnother x cov2 stmt (branch + 1) (IfStmt_Alternative a) rest alternative
      in (Some (ElseStmt (fake x)
                  (Block (fake x) [mk, IfStatement (IfStmt_setAlternative a nested)])),
          cov3))"
| "instrumentSwitchStatement x cov (SwitchStmt m control cases dflt) =
     (let (cases', cov1) = instrumentCases x cov (Node ''*ast.SwitchStatement'' m) 1 cases
      in (SwitchStmt m control cases' dflt, cov1))"
| "instrumentCases x cov stmt branch [] = ([], cov)"
| "instrumentCases x cov stmt branch (CaseStmt m test ss fallthrough # cases) =
     (let (mk1, cov1) = createMarker x cov CoverageTypeBranch stmt [Sprint branch];
          (mk2, cov2) = createMarker x cov1 CoverageTypeBranch (Node ''*ast.CaseStatement'' m) [];
          (ss', cov3) = instrumentStatements x cov2 ss;
          (cases', cov4) = instrumentCases x cov3 stmt (branch + 1) cases
      in (CaseStmt m test (mk1 # mk2 # ss') fallthrough # cases', cov4))"
  by pat_completeness auto
termination
  by (relation "measure (\<lambda>v. case v of
         Inl (Inl (x, cov, ss)) \<Rightarrow> size_list size ss
       | Inl (Inr (Inl (x, cov, s))) \<Rightarrow> size s
       | Inl (Inr (Inr (x, cov, t))) \<Rightarrow> size t
       | Inr (Inl (x, cov, stmt, branch, cur, an, al)) \<Rightarrow> size_list size an + size_option size al
       | Inr (Inr (Inl (x, cov, t))) \<Rightarrow> size t
       | Inr (Inr (Inr (x, cov, stmt, branch, cs))) \<Rightarrow> size_list size cs)") auto

section \<open>The pass over a whole program\<close>

fun instrumentSubroutine :: "Externals \<Rightarrow> Coverage \<Rightarrow> Declaration \<Rightarrow> Declaration \<times> Coverage" where
  "instrumentSubroutine x cov (SubroutineDeclaration m name (Block bm ss)) =
     (let (mk, cov1) = createMarker x cov CoverageTypeSubroutine
                         (Node ''*ast.SubroutineDeclaration'' m) [];
          (ss', cov2) = instrumentStatements x cov1 ss
      in (SubroutineDeclaration m name (Block bm (mk # ss')), cov2))"
| "instrumentSubroutine x cov (OtherDeclaration k m) = (OtherDeclaration k m, cov)"

fun instrumentDeclarations ::
  "Externals \<Rightarrow> Coverage \<Rightarrow> Declaration list \<Rightarrow> Declaration list \<times> Coverage" where
  "instrumentDeclarations x cov [] = ([], cov)"
| "instrumentDeclarations x cov (v # vs) =
     (let (v', cov1) = instrumentSubroutine x cov v;
          (vs', cov2) = instrumentDeclarations x cov1 vs
      in (v' # vs', cov2))"

fun instrument :: "Externals \<Rightarrow> Coverage \<Rightarrow> VCL \<Rightarrow> VCL \<times> Coverage" where
  "instrument x cov (VCL statements) =
     (let (statements', cov1) = instrumentDeclarations x cov statements
      in (VCL statements', cov1))"

section \<open>The built-in testing.fixed\_time (tester/function/testing\_fixed\_time.go)\<close>

text \<open>
  Modelled from the spec: the runtime value package (interpreter/value) is not part of the
  sources at hand; the spec only says that built-ins receive a typed argument list. A value
  is a tagged union whose tag is what \<open>Type()\<close> returns. The three tags the built-in looks
  at are INTEGER, TIME and STRING; every other tag is kept by name.
\<close>

datatype Time = Time (sec: int) (nsec: int)

datatype ValueType = IntegerType | TimeType | StringType | OtherType string

datatype Value =
    value_Integer int
  | value_Time Time
  | value_String string
  | OtherValue string
  | value_Null

fun Type :: "Value \<Rightarrow> ValueType" where
  "Type (value_Integer _) = IntegerType"
| "Type (value_Time _) = TimeType"
| "Type (value_String _) = StringType"
| "Type (OtherValue n) = OtherType n"
| "Type value_Null = OtherType ''NULL''"

text \<open>
  Errors are values. \<open>ArgumentNotEnough\<close> is what the validator returns,
  \<open>ParseError\<close> is what \<open>time.Parse\<close> returns, and \<open>TestingError\<close> is the typed error
  of the testing built-ins: its format string and the arguments formatted into it.
\<close>

datatype error =
    ArgumentNotEnough string nat "Value list"
  | ParseError string string
  | TestingError string "fmt_arg list"
and fmt_arg =
    ErrorArg error
  | StringArg string
  | TypeArg ValueType

record Context =
  FixedTime :: "Time option"

definition Testing_fixed_time_Name :: string where
  "Testing_fixed_time_Name = ''testing.fixed_time''"

definition expectedTimeFormat :: string where
  "expectedTimeFormat = ''2006-01-02 15:04:05''"

definition Testing_fixed_time_Validate :: "Value list \<Rightarrow> error option" where
  "Testing_fixed_time_Validate args =
     (if length args \<noteq> 1 then Some (ArgumentNotEnough Testing_fixed_time_Name 1 args)
      else None)"

text \<open>\<open>time.Unix(sec, 0)\<close> of the Go standard library.\<close>

definition time_Unix :: "int \<Rightarrow> int \<Rightarrow> Time" where
  "time_Unix s n = Time s n"

text \<open>
  The built-in itself. \<open>time.Parse\<close> belongs to the Go standard library and is a
  parameter: given the layout and the text it returns a parse error or a time. The result
  is the pair Go returns (a value that may be nil, an error that may be nil) and the
  context as the call leaves it. \<open>args[0]\<close> is read only after the validator has
  accepted the list, so its length is one. The tag of a value is fixed by its constructor,
  so the type assertion of \<open>value.Unwrap\<close> never fails; the branches written \<open>_\<close>
  stand for that impossible case and are never taken.
\<close>

fun Testing_fixed_time ::
  "(string \<Rightarrow> string \<Rightarrow> error + Time) \<Rightarrow> Context \<Rightarrow> Value list
     \<Rightarrow> (Value option \<times> error option) \<times> Context" where
  "Testing_fixed_time time_Parse ctx args =
     (case Testing_fixed_time_Validate args of
        Some err \<Rightarrow> ((None, Some (TestingError ''%s'' [ErrorArg err])), ctx)
      | None \<Rightarrow>
         (case Type (args ! 0) of
            IntegerType \<Rightarrow>
              (case args ! 0 of
                 value_Integer v \<Rightarrow> ((Some value_Null, None), ctx\<lparr>FixedTime := Some (time_Unix v 0)\<rparr>)
               | _ \<Rightarrow> ((Some value_Null, None), ctx))
          | TimeType \<Rightarrow>
              (case args ! 0 of
                 value_Time t \<Rightarrow> ((Some value_Null, None), ctx\<lparr>FixedTime := Some t\<rparr>)
               | _ \<Rightarrow> ((Some value_Null, None), ctx))
          | StringType \<Rightarrow>
              (case args ! 0 of
                 value_String fixed \<Rightarrow>
                   (case time_Parse expectedTimeFormat fixed of
                      Inl err \<Rightarrow>
                        ((Some value_Null,
                          Some (TestingError ''Invalid time format: %s'' [ErrorArg err])), ctx)
                    | Inr ft \<Rightarrow> ((Some value_Null, None), ctx\<lparr>FixedTime := Some ft\<rparr>))
               | _ \<Rightarrow> ((Some value_Null, None), ctx))
          | OtherType n \<Rightarrow>
              ((Some value_Null,
                Some (TestingError
                  ''First argument of %s must be INTEGER or TIME or STRING type, %s provided''
                  [StringArg Testing_fixed_time_Name, TypeArg (Type (args ! 0))])), ctx)))"

section \<open>Notions used to state the properties\<close>

text \<open>
  The identifier of a marker as the spec words it: the kind's prefix, the line and the
  column of the originating node, and the suffix parts when there are any, all joined by
  underscores.
\<close>

fun kindPrefix :: "CoverageType \<Rightarrow> string" where
  "kindPrefix CoverageTypeSubroutine = ''sub''"
| "kindPrefix CoverageTypeStatement = ''stmt''"
| "kindPrefix CoverageTypeBranch = ''branch''"

definition markerId :: "CoverageType \<Rightarrow> Token \<Rightarrow> string list \<Rightarrow> string" where
  "markerId t tok suffix =
     kindPrefix t @ ''_'' @ Sprint (Line tok) @ ''_'' @ Sprint (Position tok)
       @ (if suffix = [] then [] else ''_'' @ strings_Join suffix ''_'')"

text \<open>The marker statement: a call of the recording built-in of the kind on one string literal.\<close>

definition markerStatement :: "Externals \<Rightarrow> CoverageType \<Rightarrow> string \<Rightarrow> Statement" where
  "markerStatement x t ident =
     FunctionCallStatement (fake x)
       (Ident (Meta \<lparr>TokenType = STRING, Literal = ''coverage.'' @ CoverageType_String x t,
                     Line = 0, Position = 0, File = []\<rparr>)
          (''coverage.'' @ CoverageType_String x t))
       [ast_String (Meta \<lparr>TokenType = STRING, Literal = ident, Line = 0, Position = 0,
                           File = []\<rparr>) ident]"

text \<open>The registration of the kind.\<close>

fun Setup :: "CoverageType \<Rightarrow> string \<Rightarrow> Node \<Rightarrow> Coverage \<Rightarrow> Coverage" where
  "Setup CoverageTypeSubroutine = SetupSubroutine"
| "Setup CoverageTypeStatement = SetupStatement"
| "Setup CoverageTypeBranch = SetupBranch"

text \<open>The bucket of a kind.\<close>

fun bucket :: "CoverageType \<Rightarrow> Coverage \<Rightarrow> (string \<rightharpoonup> Node \<times> bool)" where
  "bucket CoverageTypeSubroutine = Subroutines"
| "bucket CoverageTypeStatement = Statements"
| "bucket CoverageTypeBranch = Branches"

text \<open>The marker of a node, and the synthetic conditional of an inline conditional.\<close>

definition marker :: "Externals \<Rightarrow> CoverageType \<Rightarrow> Node \<Rightarrow> string list \<Rightarrow> Statement" where
  "marker x t node suffix = markerStatement x t (markerId t (Token (GetMeta node)) suffix)"

definition syntheticIf :: "Externals \<Rightarrow> Meta \<Rightarrow> Expression \<Rightarrow> Statement" where
  "syntheticIf x m condition =
     IfStatement
       (IfStmt ''if'' (fake x) condition
          (Block (fake x) [marker x CoverageTypeBranch (Node ''*ast.IfExpression'' m) [''true'']])
          []
          (Some (ElseStmt (fake x)
             (Block (fake x)
                [marker x CoverageTypeBranch (Node ''*ast.IfExpression'' m) [''false'']]))))"

text \<open>The empty registry, and the tree a pass leaves when it starts from it.\<close>

definition emptyCoverage :: Coverage where
  "emptyCoverage = \<lparr>Subroutines = Map.empty, Statements = Map.empty, Branches = Map.empty\<rparr>"

text \<open>
  The tree part of each result, taken from a pass that starts on the empty registry. The
  tree a pass leaves does not depend on the registry it starts from (lemmas
  \<open>instrumentExpression_tree\<close> and \<open>instrumentStatements_tree\<close> below), so these name the
  rewritten tree of every run.
\<close>

definition expressionPre :: "Externals \<Rightarrow> Expression \<Rightarrow> Statement list" where
  "expressionPre x e = fst (instrumentExpression x emptyCoverage e)"

definition argumentsPre :: "Externals \<Rightarrow> Expression list \<Rightarrow> Statement list" where
  "argumentsPre x es = fst (instrumentArguments x emptyCoverage es)"

definition instrumentedStatements :: "Externals \<Rightarrow> Statement list \<Rightarrow> Statement list" where
  "instrumentedStatements x ss = fst (instrumentStatements x emptyCoverage ss)"

definition instrumentedStatement :: "Externals \<Rightarrow> Statement \<Rightarrow> Statement list \<times> Statement" where
  "instrumentedStatement x s = fst (instrumentStatement x emptyCoverage s)"

definition instrumentedIf :: "Externals \<Rightarrow> IfStmt \<Rightarrow> IfStmt" where
  "instrumentedIf x t = fst (instrumentIfStatement x emptyCoverage t)"

definition nestedAnother ::
  "Externals \<Rightarrow> Node \<Rightarrow> int \<Rightarrow> ElseStmt option \<Rightarrow> IfStmt list \<Rightarrow> ElseStmt option
     \<Rightarrow> ElseStmt option" where
  "nestedAnother x stmt branch current another alternative =
     fst (nestAnother x emptyCoverage stmt branch current another alternative)"

definition instrumentedSwitch :: "Externals \<Rightarrow> SwitchStmt \<Rightarrow> SwitchStmt" where
  "instrumentedSwitch x t = fst (instrumentSwitchStatement x emptyCoverage t)"

definition instrumentedCases :: "Externals \<Rightarrow> Node \<Rightarrow> int \<Rightarrow> CaseStmt list \<Rightarrow> CaseStmt list" where
  "instrumentedCases x stmt branch cs = fst (instrumentCases x emptyCoverage stmt branch cs)"

text \<open>The identifier a marker statement carries: the string literal that is its only argument.\<close>

fun markerIdentifier :: "Statement \<Rightarrow> string option" where
  "markerIdentifier (FunctionCallStatement m f [ast_String m' v]) = Some v"
| "markerIdentifier _ = None"

text \<open>
  Sample values for concrete runs: the two parameters (here the built-ins are called
  \<open>coverage.subroutine\<close>, \<open>coverage.statement\<close> and \<open>coverage.branch\<close>), and the \<open>Meta\<close>
  of a node at a line and a column of the file \<open>main.vcl\<close>.
\<close>

definition sampleExternals :: Externals where
  "sampleExternals =
     \<lparr>token_Null = \<lparr>TokenType = OtherTokenType ''NULL'', Literal = ''NULL'', Line = 0,
                     Position = 0, File = []\<rparr>,
      CoverageType_String =
        (\<lambda>t. case t of CoverageTypeSubroutine \<Rightarrow> ''subroutine''
              | CoverageTypeStatement \<Rightarrow> ''statement''
              | CoverageTypeBranch \<Rightarrow> ''branch'')\<rparr>"

definition at :: "int \<Rightarrow> int \<Rightarrow> Meta" where
  "at l p = Meta \<lparr>TokenType = OtherTokenType ''TOKEN'', Literal = [], Line = l, Position = p,
                  File = ''main.vcl''\<rparr>"

text \<open>
  The inline conditionals the expression instrumenter reaches, as the spec words its
  traversal (section 4.3): through the arguments of a function call, the inner term of a
  grouped expression, both sides of an infix expression, the left operand of a postfix and
  the right operand of a prefix expression; terminals hold none, and the traversal stops at
  an inline conditional. Each is given by its \<open>Meta\<close> and its condition, in the order of
  the traversal.
\<close>

fun inlineConditionals :: "Expression \<Rightarrow> (Meta \<times> Expression) list"
and inlineConditionalsOfList :: "Expression list \<Rightarrow> (Meta \<times> Expression) list" where
  "inlineConditionals (FunctionCallExpression m f args) = inlineConditionalsOfList args"
| "inlineConditionals (GroupedExpression m right) = inlineConditionals right"
| "inlineConditionals (InfixExpression m left operator right) =
     inlineConditionals left @ inlineConditionals right"
| "inlineConditionals (PostfixExpression m left operator) = inlineConditionals left"
| "inlineConditionals (PrefixExpression m operator right) = inlineConditionals right"
| "inlineConditionals (IfExpression m condition consequence alternative) = [(m, condition)]"
| "inlineConditionals (ast_Ident i) = []"
| "inlineConditionals (ast_String m v) = []"
| "inlineConditionals (OtherExpression k m) = []"
| "inlineConditionalsOfList [] = []"
| "inlineConditionalsOfList (e # es) = inlineConditionals e @ inlineConditionalsOfList es"

text \<open>
  The expressions of a statement that the statement instrumenter hands to the expression
  instrumenter (the dispatch table of section 4.2 of the spec), and the statement marker it
  emits for the statement itself: none for a block and for a function-call statement.
\<close>

fun visitedExpressions :: "Statement \<Rightarrow> Expression list" where
  "visitedExpressions (FunctionCallStatement m f arguments) = arguments"
| "visitedExpressions (ErrorStatement m code argument) =
     (case code of None \<Rightarrow> [] | Some c \<Rightarrow> [c])
     @ (case argument of None \<Rightarrow> [] | Some a \<Rightarrow> [a])"
| "visitedExpressions (ReturnStatement m e) = (case e of None \<Rightarrow> [] | Some r \<Rightarrow> [r])"
| "visitedExpressions (SetStatement m i operator v) = [v]"
| "visitedExpressions (AddStatement m i operator v) = [v]"
| "visitedExpressions (LogStatement m v) = [v]"
| "visitedExpressions (SyntheticStatement m v) = [v]"
| "visitedExpressions (SyntheticBase64Statement m v) = [v]"
| "visitedExpressions _ = []"

fun Statement_Node :: "Statement \<Rightarrow> Node" where
  "Statement_Node (BlockStatement (Block m ss)) = Node ''*ast.BlockStatement'' m"
| "Statement_Node (IfStatement t) = IfStmt_Node t"
| "Statement_Node (SwitchStatement t) = SwitchStmt_Node t"
| "Statement_Node (FunctionCallStatement m f arguments) = Node ''*ast.FunctionCallStatement'' m"
| "Statement_Node (ErrorStatement m code argument) = Node ''*ast.ErrorStatement'' m"
| "Statement_Node (ReturnStatement m e) = Node ''*ast.ReturnStatement'' m"
| "Statement_Node (SetStatement m i operator v) = Node ''*ast.SetStatement'' m"
| "Statement_Node (AddStatement m i operator v) = Node ''*ast.AddStatement'' m"
| "Statement_Node (LogStatement m v) = Node ''*ast.LogStatement'' m"
| "Statement_Node (SyntheticStatement m v) = Node ''*ast.SyntheticStatement'' m"
| "Statement_Node (SyntheticBase64Statement m v) = Node ''*ast.SyntheticBase64Statement'' m"
| "Statement_Node (OtherStatement k m) = Node k m"

fun statementMarker :: "Externals \<Rightarrow> Statement \<Rightarrow> Statement list" where
  "statementMarker x (BlockStatement b) = []"
| "statementMarker x (FunctionCallStatement m f arguments) = []"
| "statementMarker x s = [marker x CoverageTypeStatement (Statement_Node s) []]"

text \<open>The statements that the pass rewrites in place: blocks, conditionals and switches.\<close>

fun rewrittenInPlace :: "Statement \<Rightarrow> bool" where
  "rewrittenInPlace (BlockStatement b) = True"
| "rewrittenInPlace (IfStatement t) = True"
| "rewrittenInPlace (SwitchStatement t) = True"
| "rewrittenInPlace _ = False"

text \<open>Recognising a marker statement and a synthetic conditional among the inserted statements.\<close>

definition isMarker :: "Externals \<Rightarrow> Statement \<Rightarrow> bool" where
  "isMarker x s =
     (case markerIdentifier s of
        None \<Rightarrow> False
      | Some v \<Rightarrow> s = markerStatement x CoverageTypeSubroutine v
                \<or> s = markerStatement x CoverageTypeStatement v
                \<or> s = markerStatement x CoverageTypeBranch v)"

fun isSyntheticIf :: "Externals \<Rightarrow> Statement \<Rightarrow> bool" where
  "isSyntheticIf x
     (IfStatement (IfStmt keyword m condition (Block bm [mt]) []
        (Some (ElseStmt em (Block ebm [mf]))))) =
     (keyword = ''if'' \<and> m = fake x \<and> bm = fake x \<and> em = fake x \<and> ebm = fake x
      \<and> isMarker x mt \<and> isMarker x mf)"
| "isSyntheticIf x _ = False"

text \<open>
  A sample expression, \<open>if(if(req.http.A, "x", "y"), if(req.http.B, "p", "q"), "z")\<close>: an
  inline conditional at line 3, column 20, that holds one inline conditional in its
  condition (column 23) and one in its consequence (column 47); and the statement
  \<open>set req.http.Foo = ...\<close> of line 3 that assigns it.
\<close>

definition sampleInner :: Expression where
  "sampleInner =
     IfExpression (at 3 23) (ast_Ident (Ident (at 3 26) ''req.http.A''))
       (ast_String (at 3 38) ''x'') (ast_String (at 3 43) ''y'')"

definition sampleNested :: Expression where
  "sampleNested =
     IfExpression (at 3 20) sampleInner
       (IfExpression (at 3 47) (ast_Ident (Ident (at 3 50) ''req.http.B''))
          (ast_String (at 3 62) ''p'') (ast_String (at 3 67) ''q''))
       (ast_String (at 3 73) ''z'')"

definition sampleSet :: Statement where
  "sampleSet = SetStatement (at 3 1) (Ident (at 3 5) ''req.http.Foo'') ''='' sampleNested"

text \<open>Two registries that hold the same identifiers, bucket by bucket.\<close>

definition sameIdentifiers :: "Coverage \<Rightarrow> Coverage \<Rightarrow> bool" where
  "sameIdentifiers c c' =
     (dom (Subroutines c) = dom (Subroutines c') \<and> dom (Statements c) = dom (Statements c')
      \<and> dom (Branches c) = dom (Branches c'))"

section \<open>Executing a tree\<close>

text \<open>
  Modelled from the spec: the interpreter that executes the tree is not among the sources
  at hand. The spec fixes a few points of it: a conditional chain is a short-circuit chain
  (the condition of the if, then those of the else-if clauses in source order, the first
  true one selects the body, the else is the fallback; section 4.4), a marker is a call of
  one of the three reserved built-in names on one string literal and does nothing but
  update the registry (sections 3 and 6), and a condition may have an externally observable
  effect (sections 4.6 and 9). Everything else is a parameter: how a condition is
  evaluated, what a statement without sub-statements does to the observable state and how
  control leaves it, and which case of a switch is entered.

  A state is the observable state together with the log of the marker identifiers hit. A
  statement ends with \<open>Next\<close> (go on with the following statement), \<open>Break\<close> (leave the
  switch) or \<open>Exit\<close> (return, error, restart or goto: leave the subroutine).
\<close>

datatype Flow = Next | Break | Exit

record 's Interpreter =
  evalCondition :: "Expression \<Rightarrow> 's \<Rightarrow> bool \<times> 's"
  execPrimitive :: "Statement \<Rightarrow> 's \<Rightarrow> 's \<times> Flow"
  selectCase :: "Expression \<Rightarrow> Expression option list \<Rightarrow> int \<Rightarrow> 's \<Rightarrow> nat option \<times> 's"

definition isRecordingBuiltin :: "Externals \<Rightarrow> string \<Rightarrow> bool" where
  "isRecordingBuiltin x name =
     (name = ''coverage.'' @ CoverageType_String x CoverageTypeSubroutine
      \<or> name = ''coverage.'' @ CoverageType_String x CoverageTypeStatement
      \<or> name = ''coverage.'' @ CoverageType_String x CoverageTypeBranch)"

fun CaseStmt_Test :: "CaseStmt \<Rightarrow> Expression option" where
  "CaseStmt_Test (CaseStmt m test ss fallthrough) = test"

function execStatements ::
  "('s, 'z) Interpreter_scheme \<Rightarrow> Externals \<Rightarrow> Statement list \<Rightarrow> 's \<times> string list
     \<Rightarrow> ('s \<times> string list) \<times> Flow"
and execStatement ::
  "('s, 'z) Interpreter_scheme \<Rightarrow> Externals \<Rightarrow> Statement \<Rightarrow> 's \<times> string list
     \<Rightarrow> ('s \<times> string list) \<times> Flow"
and execElseIfs ::
  "('s, 'z) Interpreter_scheme \<Rightarrow> Externals \<Rightarrow> IfStmt list \<Rightarrow> ElseStmt option \<Rightarrow> 's \<times> string list
     \<Rightarrow> ('s \<times> string list) \<times> Flow"
and enterCase ::
  "('s, 'z) Interpreter_scheme \<Rightarrow> Externals \<Rightarrow> nat \<Rightarrow> CaseStmt list \<Rightarrow> 's \<times> string list
     \<Rightarrow> ('s \<times> string list) \<times> Flow"
where
  "execStatements I x [] st = (st, Next)"
| "execStatements I x (stmt # stmts) st =
     (case execStatement I x stmt st of
        (st', Next) \<Rightarrow> execStatements I x stmts st'
      | (st', flow) \<Rightarrow> (st', flow))"
| "execStatement I x (BlockStatement (Block m ss)) st = execStatements I x ss st"
| "execStatement I x (IfStatement (IfStmt keyword m condition (Block bm ss) another alternative))
     st =
     (case evalCondition I condition (fst st) of
        (True, s') \<Rightarrow> execStatements I x ss (s', snd st)
      | (False, s') \<Rightarrow> execElseIfs I x another alternative (s', snd st))"
| "execStatement I x (SwitchStatement (SwitchStmt m control cases dflt)) st =
     (case selectCase I control (map CaseStmt_Test cases) dflt (fst st) of
        (None, s') \<Rightarrow> ((s', snd st), Next)
      | (Some k, s') \<Rightarrow> enterCase I x k cases (s', snd st))"
| "execStatement I x (FunctionCallStatement m (Ident im name) arguments) st =
     (case arguments of
        [ast_String sm ident] \<Rightarrow>
          if isRecordingBuiltin x name then ((fst st, snd st @ [ident]), Next)
          else (case execPrimitive I (FunctionCallStatement m (Ident im name) arguments) (fst st)
                of (s', flow) \<Rightarrow> ((s', snd st), flow))
      | _ \<Rightarrow>
          (case execPrimitive I (FunctionCallStatement m (Ident im name) arguments) (fst st)
           of (s', flow) \<Rightarrow> ((s', snd st), flow)))"
| "execStatement I x (ErrorStatement m code argument) st =
     (case execPrimitive I (ErrorStatement m code argument) (fst st)
      of (s', flow) \<Rightarrow> ((s', snd st), flow))"
| "execStatement I x (ReturnStatement m e) st =
     (case execPrimitive I (ReturnStatement m e) (fst st)
      of (s', flow) \<Rightarrow> ((s', snd st), flow))"
| "execStatement I x (SetStatement m i operator v) st =
     (case execPrimitive I (SetStatement m i operator v) (fst st)
      of (s', flow) \<Rightarrow> ((s', snd st), flow))"
| "execStatement I x (AddStatement m i operator v) st =
     (case execPrimitive I (AddStatement m i operator v) (fst st)
      of (s', flow) \<Rightarrow> ((s', snd st), flow))"
| "execStatement I x (LogStatement m v) st =
     (case execPrimitive I (LogStatement m v) (fst st)
      of (s', flow) \<Rightarrow> ((s', snd st), flow))"
| "execStatement I x (SyntheticStatement m v) st =
     (case execPrimitive I (SyntheticStatement m v) (fst st)
      of (s', flow) \<Rightarrow> ((s', snd st), flow))"
| "execStatement I x (SyntheticBase64Statement m v) st =
     (case execPrimitive I (SyntheticBase64Statement m v) (fst st)
      of (s', flow) \<Rightarrow> ((s', snd st), flow))"
| "execStatement I x (OtherStatement k m) st =
     (case execPrimitive I (OtherStatement k m) (fst st)
      of (s', flow) \<Rightarrow> ((s', snd st), flow))"
| "execElseIfs I x [] None st = (st, Next)"
| "execElseIfs I x [] (Some (ElseStmt m (Block bm ss))) st = execStatements I x ss st"
| "execElseIfs I x (IfStmt keyword m condition (Block bm ss) another' alternative' # rest)
     alternative st =
     (case evalCondition I condition (fst st) of
        (True, s') \<Rightarrow> execStatements I x ss (s', snd st)
      | (False, s') \<Rightarrow> execElseIfs I x rest alternative (s', snd st))"
| "enterCase I x k [] st = (st, Next)"
| "enterCase I x (Suc k) (c # cases) st = enterCase I x k cases st"
| "enterCase I x 0 (CaseStmt m test ss fallthrough # cases) st =
     (case execStatements I x ss st of
        (st', Next) \<Rightarrow> if fallthrough then enterCase I x 0 cases st' else (st', Next)
      | (st', Break) \<Rightarrow> (st', Next)
      | (st', Exit) \<Rightarrow> (st', Exit))"
  by pat_completeness auto
termination
  by (relation "measure (\<lambda>v. case v of
         Inl (Inl (I, x, ss, st)) \<Rightarrow> size_list size ss
       | Inl (Inr (I, x, s, st)) \<Rightarrow> size s
       | Inr (Inl (I, x, an, al, st)) \<Rightarrow> size_list size an + size_option size al
       | Inr (Inr (I, x, k, cs, st)) \<Rightarrow> size_list size cs)") auto

definition observable :: "('s \<times> string list) \<times> Flow \<Rightarrow> 's \<times> Flow" where
  "observable r = (fst (fst r), snd r)"

text \<open>
  The trees on which the rewritten tree is compared with the original one. The shape is
  that of the parser: the else-if clauses hang on the root statement of their chain and
  have neither else-if clauses nor an else of their own, here and in every statement
  below. The argument \<open>pure\<close> says whether evaluating a condition leaves the observable
  state as it is; when it does not, no statement may hold an inline conditional that the
  expression instrumenter reaches.
\<close>

function rewritable :: "bool \<Rightarrow> Statement list \<Rightarrow> bool"
and rewritableStatement :: "bool \<Rightarrow> Statement \<Rightarrow> bool"
and rewritableIf :: "bool \<Rightarrow> IfStmt \<Rightarrow> bool"
and rewritableClauses :: "bool \<Rightarrow> IfStmt list \<Rightarrow> bool"
and rewritableElse :: "bool \<Rightarrow> ElseStmt option \<Rightarrow> bool"
and rewritableCases :: "bool \<Rightarrow> CaseStmt list \<Rightarrow> bool"
where
  "rewritable pure [] = True"
| "rewritable pure (stmt # stmts) = (rewritableStatement pure stmt \<and> rewritable pure stmts)"
| "rewritableStatement pure (BlockStatement (Block m ss)) = rewritable pure ss"
| "rewritableStatement pure (IfStatement t) = rewritableIf pure t"
| "rewritableStatement pure (SwitchStatement (SwitchStmt m control cases dflt)) =
     rewritableCases pure cases"
| "rewritableStatement pure (FunctionCallStatement m f arguments) =
     (pure \<or> inlineConditionalsOfList arguments = [])"
| "rewritableStatement pure (ErrorStatement m code argument) =
     (pure \<or> inlineConditionalsOfList (visitedExpressions (ErrorStatement m code argument)) = [])"
| "rewritableStatement pure (ReturnStatement m e) =
     (pure \<or> inlineConditionalsOfList (visitedExpressions (ReturnStatement m e)) = [])"
| "rewritableStatement pure (SetStatement m i operator v) = (pure \<or> inlineConditionals v = [])"
| "rewritableStatement pure (AddStatement m i operator v) = (pure \<or> inlineConditionals v = [])"
| "rewritableStatement pure (LogStatement m v) = (pure \<or> inlineConditionals v = [])"
| "rewritableStatement pure (SyntheticStatement m v) = (pure \<or> inlineConditionals v = [])"
| "rewritableStatement pure (SyntheticBase64Statement m v) =
     (pure \<or> inlineConditionals v = [])"
| "rewritableStatement pure (OtherStatement k m) = True"
| "rewritableIf pure (IfStmt keyword m condition (Block bm ss) another alternative) =
     (rewritable pure ss \<and> rewritableClauses pure another \<and> rewritableElse pure alternative)"
| "rewritableClauses pure [] = True"
| "rewritableClauses pure (IfStmt keyword m condition (Block bm ss) another alternative # rest) =
     (another = [] \<and> alternative = None \<and> rewritable pure ss \<and> rewritableClauses pure rest)"
| "rewritableElse pure None = True"
| "rewritableElse pure (Some (ElseStmt m (Block bm ss))) = rewritable pure ss"
| "rewritableCases pure [] = True"
| "rewritableCases pure (CaseStmt m test ss fallthrough # cases) =
     (rewritable pure ss \<and> rewritableCases pure cases)"
  by pat_completeness auto
termination
  by (relation "measure (\<lambda>v. case v of
         Inl (Inl (p, ss)) \<Rightarrow> size_list size ss
       | Inl (Inr (Inl (p, s))) \<Rightarrow> size s
       | Inl (Inr (Inr (p, t))) \<Rightarrow> size t
       | Inr (Inl (p, an)) \<Rightarrow> size_list size an
       | Inr (Inr (Inl (p, al))) \<Rightarrow> size_option size al
       | Inr (Inr (Inr (p, cs))) \<Rightarrow> size_list size cs)") auto

text \<open>The statements of the consequence of a conditional.\<close>

fun IfStmt_Statements :: "IfStmt \<Rightarrow> Statement list" where
  "IfStmt_Statements (IfStmt keyword m condition (Block bm ss) another alternative) = ss"

text \<open>
  A sample interpreter whose observable state counts the evaluations of conditions: every
  condition is true and its evaluation adds one to the counter; no other statement changes
  the counter. And a sample conditional, \<open>if (req.http.C) { set req.http.Foo = ...; }\<close>,
  whose body is the sample assignment with its inline conditional.
\<close>

definition countingInterpreter :: "nat Interpreter" where
  "countingInterpreter =
     \<lparr>evalCondition = (\<lambda>e n. (True, Suc n)),
      execPrimitive = (\<lambda>s n. (n, Next)),
      selectCase = (\<lambda>control tests dflt n. (None, n))\<rparr>"

definition pureConditions :: "('s, 'z) Interpreter_scheme \<Rightarrow> bool" where
  "pureConditions I = (\<forall>e s. snd (evalCondition I e s) = s)"

definition sampleIf :: IfStmt where
  "sampleIf =
     IfStmt ''if'' (at 2 1) (ast_Ident (Ident (at 2 5) ''req.http.C''))
       (Block (at 2 17) [sampleSet]) [] None"

text \<open>
  A sample interpreter whose observable state is the trace of what it does: a condition is
  an identifier, it is true when the identifier is \<open>true\<close>, and its evaluation is recorded
  by name; a statement without sub-statements is recorded by its kind. And a sample chain
  with two else-if clauses and an else, \<open>if (a) { restart; } else if (true) { log "x"; }
  elsif (c) { esi; } else { log "y"; }\<close>.
\<close>

fun conditionName :: "Expression \<Rightarrow> string" where
  "conditionName (ast_Ident (Ident m v)) = v"
| "conditionName _ = ''?''"

definition tracingInterpreter :: "string list Interpreter" where
  "tracingInterpreter =
     \<lparr>evalCondition = (\<lambda>e tr. (conditionName e = ''true'', tr @ [conditionName e])),
      execPrimitive = (\<lambda>s tr. (tr @ [NodeType (Statement_Node s)], Next)),
      selectCase = (\<lambda>control tests dflt tr. (None, tr))\<rparr>"

definition sampleChain :: IfStmt where
  "sampleChain =
     IfStmt ''if'' (at 1 1) (ast_Ident (Ident (at 1 5) ''a''))
       (Block (at 1 8) [OtherStatement ''*ast.RestartStatement'' (at 2 3)])
       [IfStmt ''else if'' (at 3 3) (ast_Ident (Ident (at 3 12) ''true''))
          (Block (at 3 18) [LogStatement (at 4 3) (ast_String (at 4 7) ''x'')]) [] None,
        IfStmt ''elsif'' (at 5 3) (ast_Ident (Ident (at 5 10) ''c''))
          (Block (at 5 13) [OtherStatement ''*ast.EsiStatement'' (at 6 3)]) [] None]
       (Some (ElseStmt (at 7 3) (Block (at 7 8)
          [LogStatement (at 8 3) (ast_String (at 8 7) ''y'')])))"

section \<open>Basic facts about the marker factory\<close>

lemma createMarker_eq:
  "createMarker x cov t node suffix =
     (marker x t node suffix, Setup t (markerId t (Token (GetMeta node)) suffix) node cov)"
  by (cases t) (simp_all add: createMarker_def marker_def markerStatement_def markerId_def Let_def)

lemma instrumentIfExpression_eq:
  "instrumentIfExpression x cov m condition =
     ([syntheticIf x m condition],
      SetupBranch (markerId CoverageTypeBranch (Token m) [''false''])
        (Node ''*ast.IfExpression'' m)
        (SetupBranch (markerId CoverageTypeBranch (Token m) [''true''])
           (Node ''*ast.IfExpression'' m) cov))"
  by (simp add: instrumentIfExpression_def syntheticIf_def createMarker_eq Let_def)

section \<open>The rewritten tree does not depend on the registry\<close>

lemma instrumentExpression_tree:
  "fst (instrumentExpression x cov e) = expressionPre x e"
  "fst (instrumentArguments x cov es) = argumentsPre x es"
proof (induction x cov e and x cov es arbitrary: cov and cov
       rule: instrumentExpression_instrumentArguments.induct)
  case (3 x cov0 m left operator right)
  note IH = "3.IH"(1) "3.IH"(2)[OF refl prod.collapse]
  show ?case
    by (subst expressionPre_def) (simp add: split_beta IH)
next
  case (11 x cov0 arg args)
  note IH = "11.IH"(1) "11.IH"(2)[OF refl prod.collapse]
  show ?case
    by (subst argumentsPre_def) (simp add: split_beta IH)
qed (simp_all add: expressionPre_def argumentsPre_def instrumentIfExpression_eq)

lemmas statement_induct =
  instrumentStatements_instrumentStatement_instrumentIfStatement_nestAnother_instrumentSwitchStatement_instrumentCases.induct

lemma simple_pre_tree:
  "fst (instrumentFunctionCallStatement x cov args) = argumentsPre x args"
  "fst (instrumentErrorStatement x cov m code argument) =
     marker x CoverageTypeStatement (Node ''*ast.ErrorStatement'' m) []
       # (case code of None \<Rightarrow> [] | Some c \<Rightarrow> expressionPre x c)
       @ (case argument of None \<Rightarrow> [] | Some a \<Rightarrow> expressionPre x a)"
  "fst (instrumentReturnStatement x cov m e) =
     marker x CoverageTypeStatement (Node ''*ast.ReturnStatement'' m) []
       # (case e of None \<Rightarrow> [] | Some r \<Rightarrow> expressionPre x r)"
  by (simp_all add: instrumentFunctionCallStatement_def instrumentErrorStatement_def
        instrumentReturnStatement_def createMarker_eq split_beta instrumentExpression_tree
        split: option.splits)

lemma instrumentStatements_tree:
  "fst (instrumentStatements x cov ss) = instrumentedStatements x ss"
  "fst (instrumentStatement x cov s) = instrumentedStatement x s"
  "fst (instrumentIfStatement x cov t) = instrumentedIf x t"
  "fst (nestAnother x cov stmt branch current another alternative) =
     nestedAnother x stmt branch current another alternative"
  "fst (instrumentSwitchStatement x cov sw) = instrumentedSwitch x sw"
  "fst (instrumentCases x cov stmt' branch' cs) = instrumentedCases x stmt' branch' cs"
proof (induction x cov ss and x cov s and x cov t and x cov stmt branch current another alternative
         and x cov sw and x cov stmt' branch' cs
       arbitrary: cov and cov and cov and cov and cov and cov
       rule: statement_induct)
  case (2 x cov0 stmt stmts)
  note IH = "2.IH"(1) "2.IH"(2)[OF refl prod.collapse prod.collapse]
  show ?case
    by (subst instrumentedStatements_def) (simp add: split_beta IH)
next
  case (3 x cov0 m ss)
  show ?case
    by (subst instrumentedStatement_def) (simp add: split_beta "3.IH")
next
  case (4 x cov0 t)
  note IH = "4.IH"[OF refl prod.collapse]
  show ?case
    by (subst instrumentedStatement_def) (simp add: split_beta IH createMarker_eq)
next
  case (5 x cov0 t)
  note IH = "5.IH"[OF refl prod.collapse]
  show ?case
    by (subst instrumentedStatement_def) (simp add: split_beta IH createMarker_eq)
next
  case (15 x cov0 keyword m condition bm ss another alternative)
  note IH = "15.IH"(1)[OF refl refl prod.collapse]
            "15.IH"(2)[OF refl refl prod.collapse refl prod.collapse]
  show ?case
    by (subst instrumentedIf_def) (simp add: split_beta Let_def IH createMarker_eq)
next
  case (17 x cov0 stmt branch current m bm ss)
  note IH = "17.IH"[OF refl prod.collapse]
  show ?case
    by (subst nestedAnother_def) (simp add: split_beta IH createMarker_eq)
next
  case (18 x cov0 stmt branch current keyword m condition consequence another' alternative' rest
        alternative)
  note IH1 = "18.IH"(1)
  note IH = IH1 "18.IH"(2)[OF refl prod.collapse refl prod.collapse, unfolded IH1]
  show ?case
    by (subst nestedAnother_def) (simp add: split_beta Let_def IH createMarker_eq)
next
  case (19 x cov0 m control cases dflt)
  show ?case
    by (subst instrumentedSwitch_def) (simp add: split_beta "19.IH")
next
  case (21 x cov0 stmt branch m test ss fallthrough cases)
  note IH = "21.IH"(1)[OF refl prod.collapse refl prod.collapse]
            "21.IH"(2)[OF refl prod.collapse refl prod.collapse refl prod.collapse]
  show ?case
    by (subst instrumentedCases_def) (simp add: split_beta IH createMarker_eq)
qed (simp_all add: instrumentedStatements_def instrumentedStatement_def nestedAnother_def
       instrumentedCases_def split_beta createMarker_eq instrumentExpression_tree simple_pre_tree)

section \<open>The rewritten tree, equation by equation\<close>

lemma expressionPre_simps:
  "expressionPre x (FunctionCallExpression m f args) = argumentsPre x args"
  "expressionPre x (GroupedExpression m right) = expressionPre x right"
  "expressionPre x (InfixExpression m left operator right) =
     expressionPre x left @ expressionPre x right"
  "expressionPre x (PostfixExpression m left operator) = expressionPre x left"
  "expressionPre x (PrefixExpression m operator right) = expressionPre x right"
  "expressionPre x (IfExpression m condition consequence alternative) =
     [syntheticIf x m condition]"
  "expressionPre x (ast_Ident i) = []"
  "expressionPre x (ast_String m v) = []"
  "expressionPre x (OtherExpression k m) = []"
  "argumentsPre x [] = []"
  "argumentsPre x (arg # args) = expressionPre x arg @ argumentsPre x args"
  unfolding expressionPre_def argumentsPre_def
  by (simp_all add: split_beta instrumentIfExpression_eq instrumentExpression_tree)

lemma instrumentedStatements_simps:
  "instrumentedStatements x [] = []"
  "instrumentedStatements x (stmt # stmts) =
     fst (instrumentedStatement x stmt) @ snd (instrumentedStatement x stmt)
       # instrumentedStatements x stmts"
  unfolding instrumentedStatements_def
  by (simp_all add: split_beta instrumentStatements_tree)

lemma instrumentedStatement_simps:
  "instrumentedStatement x (BlockStatement (Block m ss)) =
     ([], BlockStatement (Block m (instrumentedStatements x ss)))"
  "instrumentedStatement x (IfStatement t) =
     ([marker x CoverageTypeStatement (IfStmt_Node t) []], IfStatement (instrumentedIf x t))"
  "instrumentedStatement x (SwitchStatement sw) =
     ([marker x CoverageTypeStatement (SwitchStmt_Node sw) []],
      SwitchStatement (instrumentedSwitch x sw))"
  "instrumentedStatement x (FunctionCallStatement m f arguments) =
     (argumentsPre x arguments, FunctionCallStatement m f arguments)"
  "instrumentedStatement x (ErrorStatement m code argument) =
     (marker x CoverageTypeStatement (Node ''*ast.ErrorStatement'' m) []
        # (case code of None \<Rightarrow> [] | Some c \<Rightarrow> expressionPre x c)
        @ (case argument of None \<Rightarrow> [] | Some a \<Rightarrow> expressionPre x a),
      ErrorStatement m code argument)"
  "instrumentedStatement x (ReturnStatement m e) =
     (marker x CoverageTypeStatement (Node ''*ast.ReturnStatement'' m) []
        # (case e of None \<Rightarrow> [] | Some r \<Rightarrow> expressionPre x r),
      ReturnStatement m e)"
  "instrumentedStatement x (SetStatement m i operator v) =
     (marker x CoverageTypeStatement (Node ''*ast.SetStatement'' m) [] # expressionPre x v,
      SetStatement m i operator v)"
  "instrumentedStatement x (AddStatement m i operator v) =
     (marker x CoverageTypeStatement (Node ''*ast.AddStatement'' m) [] # expressionPre x v,
      AddStatement m i operator v)"
  "instrumentedStatement x (LogStatement m v) =
     (marker x CoverageTypeStatement (Node ''*ast.LogStatement'' m) [] # expressionPre x v,
      LogStatement m v)"
  "instrumentedStatement x (SyntheticStatement m v) =
     (marker x CoverageTypeStatement (Node ''*ast.SyntheticStatement'' m) []
        # expressionPre x v,
      SyntheticStatement m v)"
  "instrumentedStatement x (SyntheticBase64Statement m v) =
     (marker x CoverageTypeStatement (Node ''*ast.SyntheticBase64Statement'' m) []
        # expressionPre x v,
      SyntheticBase64Statement m v)"
  "instrumentedStatement x (OtherStatement k m) =
     ([marker x CoverageTypeStatement (Node k m) []], OtherStatement k m)"
  unfolding instrumentedStatement_def
  by (simp_all add: split_beta createMarker_eq instrumentStatements_tree
        instrumentExpression_tree simple_pre_tree)

lemma instrumentedIf_simps:
  "instrumentedIf x (IfStmt keyword m condition (Block bm ss) another alternative) =
     IfStmt keyword m condition
       (Block bm (marker x CoverageTypeBranch (Node ''*ast.IfStatement'' m) [Sprint 1]
                    # instrumentedStatements x ss))
       []
       (nestedAnother x (Node ''*ast.IfStatement'' m) 1 alternative another alternative)"
  unfolding instrumentedIf_def
  by (simp add: split_beta Let_def createMarker_eq instrumentStatements_tree)

lemma nestedAnother_simps:
  "nestedAnother x stmt branch current [] None = current"
  "nestedAnother x stmt branch current [] (Some (ElseStmt m (Block bm ss))) =
     Some (ElseStmt m
       (Block bm (marker x CoverageTypeBranch stmt [Sprint (branch + 1)]
                    # instrumentedStatements x ss)))"
  "nestedAnother x stmt branch current
     (IfStmt keyword m condition consequence another' alternative' # rest) alternative =
     Some (ElseStmt (fake x)
       (Block (fake x)
          [marker x CoverageTypeBranch stmt [Sprint (branch + 1)],
           IfStatement
             (IfStmt_setAlternative
                (instrumentedIf x (IfStmt ''if'' m condition consequence another' alternative'))
                (nestedAnother x stmt (branch + 1)
                   (IfStmt_Alternative
                      (instrumentedIf x
                         (IfStmt ''if'' m condition consequence another' alternative')))
                   rest alternative))]))"
  unfolding nestedAnother_def
  by (simp_all add: split_beta Let_def createMarker_eq instrumentStatements_tree)

lemma instrumentedSwitch_simps:
  "instrumentedSwitch x (SwitchStmt m control cases dflt) =
     SwitchStmt m control (instrumentedCases x (Node ''*ast.SwitchStatement'' m) 1 cases) dflt"
  unfolding instrumentedSwitch_def
  by (simp add: split_beta instrumentStatements_tree)

lemma instrumentedCases_simps:
  "instrumentedCases x stmt branch [] = []"
  "instrumentedCases x stmt branch (CaseStmt m test ss fallthrough # cases) =
     CaseStmt m test
       (marker x CoverageTypeBranch stmt [Sprint branch]
          # marker x CoverageTypeBranch (Node ''*ast.CaseStatement'' m) []
          # instrumentedStatements x ss)
       fallthrough
     # instrumentedCases x stmt (branch + 1) cases"
  unfolding instrumentedCases_def
  by (simp_all add: split_beta createMarker_eq instrumentStatements_tree)

section \<open>The identifiers a pass registers do not depend on the registry\<close>

lemma sameIdentifiers_createMarker:
  "sameIdentifiers c c' \<Longrightarrow>
   sameIdentifiers (snd (createMarker x c t node suffix)) (snd (createMarker x c' t node suffix))"
  by (cases t)
     (simp_all add: createMarker_eq sameIdentifiers_def SetupSubroutine_def SetupStatement_def
        SetupBranch_def)

lemma sameIdentifiers_instrumentExpression:
  "sameIdentifiers c c' \<Longrightarrow>
   sameIdentifiers (snd (instrumentExpression x c e)) (snd (instrumentExpression x c' e))"
  "sameIdentifiers c c' \<Longrightarrow>
   sameIdentifiers (snd (instrumentArguments x c es)) (snd (instrumentArguments x c' es))"
proof (induction x c e and x c es arbitrary: c' and c'
       rule: instrumentExpression_instrumentArguments.induct)
  case (3 x cov m left operator right)
  note IH = "3.IH"(1) "3.IH"(2)[OF refl prod.collapse]
  from IH(2) [OF IH(1) [OF "3.prems"]] show ?case
    by (simp add: split_beta)
next
  case (6 x cov m condition consequence alternative)
  then show ?case
    by (simp add: instrumentIfExpression_def Let_def split_beta sameIdentifiers_createMarker)
next
  case (11 x cov arg args)
  note IH = "11.IH"(1) "11.IH"(2)[OF refl prod.collapse]
  from IH(2) [OF IH(1) [OF "11.prems"]] show ?case
    by (simp add: split_beta)
qed simp_all

lemma sameIdentifiers_simple:
  "sameIdentifiers c c' \<Longrightarrow>
   sameIdentifiers (snd (instrumentFunctionCallStatement x c args))
     (snd (instrumentFunctionCallStatement x c' args))"
  "sameIdentifiers c c' \<Longrightarrow>
   sameIdentifiers (snd (instrumentErrorStatement x c m code argument))
     (snd (instrumentErrorStatement x c' m code argument))"
  "sameIdentifiers c c' \<Longrightarrow>
   sameIdentifiers (snd (instrumentReturnStatement x c m e))
     (snd (instrumentReturnStatement x c' m e))"
  by (auto simp: instrumentFunctionCallStatement_def instrumentErrorStatement_def
        instrumentReturnStatement_def split_beta
        intro!: sameIdentifiers_instrumentExpression sameIdentifiers_createMarker
        split: option.splits)

lemma sameIdentifiers_value:
  "sameIdentifiers c c' \<Longrightarrow>
   sameIdentifiers
     (snd (instrumentExpression x (snd (createMarker x c t node suffix)) v))
     (snd (instrumentExpression x (snd (createMarker x c' t node suffix)) v))"
  by (intro sameIdentifiers_instrumentExpression sameIdentifiers_createMarker)

lemma sameIdentifiers_instrumentStatements:
  "sameIdentifiers c c' \<Longrightarrow>
   sameIdentifiers (snd (instrumentStatements x c ss)) (snd (instrumentStatements x c' ss))"
  "sameIdentifiers c c' \<Longrightarrow>
   sameIdentifiers (snd (instrumentStatement x c s)) (snd (instrumentStatement x c' s))"
  "sameIdentifiers c c' \<Longrightarrow>
   sameIdentifiers (snd (instrumentIfStatement x c t)) (snd (instrumentIfStatement x c' t))"
  "sameIdentifiers c c' \<Longrightarrow>
   sameIdentifiers (snd (nestAnother x c stmt branch current another alternative))
     (snd (nestAnother x c' stmt branch current another alternative))"
  "sameIdentifiers c c' \<Longrightarrow>
   sameIdentifiers (snd (instrumentSwitchStatement x c sw))
     (snd (instrumentSwitchStatement x c' sw))"
  "sameIdentifiers c c' \<Longrightarrow>
   sameIdentifiers (snd (instrumentCases x c stmt' branch' cs))
     (snd (instrumentCases x c' stmt' branch' cs))"
proof (induction x c ss and x c s and x c t and x c stmt branch current another alternative
         and x c sw and x c stmt' branch' cs
       arbitrary: c' and c' and c' and c' and c' and c'
       rule: statement_induct)
  case (2 x cov stmt stmts)
  note first = "2.IH"(1) [OF "2.prems"]
  from "2.IH"(2) [OF refl prod.collapse prod.collapse first] show ?case
    by (simp add: split_beta)
next
  case (3 x cov m ss)
  from "3.IH" [OF "3.prems"] show ?case
    by (simp add: split_beta)
next
  case (4 x cov t)
  note mk = sameIdentifiers_createMarker [OF "4.prems"]
  from "4.IH" [OF refl prod.collapse mk] show ?case
    by (simp add: split_beta)
next
  case (5 x cov t)
  note mk = sameIdentifiers_createMarker [OF "5.prems"]
  from "5.IH" [OF refl prod.collapse mk] show ?case
    by (simp add: split_beta)
next
  case (15 x cov keyword m condition bm ss another alternative)
  note mk = sameIdentifiers_createMarker [OF "15.prems"]
  note body = "15.IH"(1) [OF refl refl prod.collapse mk]
  from "15.IH"(2) [OF refl refl prod.collapse refl prod.collapse body] show ?case
    by (simp add: split_beta Let_def)
next
  case (17 x cov stmt branch current m bm ss)
  note mk = sameIdentifiers_createMarker [OF "17.prems"]
  from "17.IH" [OF refl prod.collapse mk] show ?case
    by (simp add: split_beta)
next
  case (18 x cov stmt branch current keyword m condition consequence another' alternative' rest
        alternative)
  note clause = "18.IH"(1) [OF "18.prems"]
  note mk = sameIdentifiers_createMarker [OF clause]
  from "18.IH"(2) [OF refl prod.collapse refl prod.collapse mk] show ?case
    by (simp add: split_beta instrumentStatements_tree)
next
  case (19 x cov m control cases dflt)
  from "19.IH" [OF "19.prems"] show ?case
    by (simp add: split_beta)
next
  case (21 x cov stmt branch m test ss fallthrough cases)
  note mk1 = sameIdentifiers_createMarker [OF "21.prems"]
  note mk2 = sameIdentifiers_createMarker [OF mk1]
  note body = "21.IH"(1) [OF refl prod.collapse refl prod.collapse mk2]
  from "21.IH"(2) [OF refl prod.collapse refl prod.collapse refl prod.collapse body] show ?case
    by (simp add: split_beta)
qed (simp_all add: split_beta sameIdentifiers_simple sameIdentifiers_value
       sameIdentifiers_createMarker)

lemma sameIdentifiers_instrument:
  "sameIdentifiers c c' \<Longrightarrow>
   sameIdentifiers (snd (instrument x c vcl)) (snd (instrument x c' vcl))"
proof -
  have sub: "sameIdentifiers (snd (instrumentSubroutine x a d)) (snd (instrumentSubroutine x b d))"
    if "sameIdentifiers a b" for a b d
    using that
    by (cases "(x, a, d)" rule: instrumentSubroutine.cases)
       (simp_all add: split_beta sameIdentifiers_instrumentStatements
          sameIdentifiers_createMarker)
  have decls: "sameIdentifiers (snd (instrumentDeclarations x a ds))
                 (snd (instrumentDeclarations x b ds))"
    if "sameIdentifiers a b" for a b ds
    using that
  proof (induction ds arbitrary: a b)
    case Nil
    then show ?case by simp
  next
    case (Cons d ds)
    from Cons.IH [OF sub [OF Cons.prems]] show ?case
      by (simp add: split_beta)
  qed
  assume "sameIdentifiers c c'"
  from decls [OF this] show ?thesis
    by (cases vcl) (simp add: split_beta)
qed

section \<open>Decimal printing on sample numbers\<close>

lemma Sprint_small:
  "Sprint 0 = ''0''" "Sprint 1 = ''1''" "Sprint 2 = ''2''" "Sprint 3 = ''3''" "Sprint 4 = ''4''"
  "Sprint 5 = ''5''" "Sprint 7 = ''7''" "Sprint 10 = ''10''" "Sprint 12 = ''12''"
  by (simp_all add: Sprint_def digits.simps)

section \<open>The marker factory: claims C7 and C8\<close>

text \<open>
  C8. For every call \<open>createMarker(kind, node, suffix)\<close> the statement returned is a synthetic
  function-call statement that invokes the recording built-in of the kind
  (\<open>coverage.\<close> followed by the kind's name) on exactly one argument, the string literal
  of the derived identifier; and the registry after the call maps that identifier to the
  node (not yet covered) in the bucket of the kind, every other entry of that bucket and
  the two other buckets being as before.
\<close>

theorem createMarker_call_and_registration:
  "fst (createMarker x cov t node suffix) =
     FunctionCallStatement (fake x)
       (Ident (Meta \<lparr>TokenType = STRING, Literal = ''coverage.'' @ CoverageType_String x t,
                     Line = 0, Position = 0, File = []\<rparr>)
          (''coverage.'' @ CoverageType_String x t))
       [ast_String
          (Meta \<lparr>TokenType = STRING, Literal = markerId t (Token (GetMeta node)) suffix,
                 Line = 0, Position = 0, File = []\<rparr>)
          (markerId t (Token (GetMeta node)) suffix)]
   \<and> bucket t (snd (createMarker x cov t node suffix)) =
       (bucket t cov)(markerId t (Token (GetMeta node)) suffix \<mapsto> (node, False))
   \<and> (\<forall>t'. t' \<noteq> t \<longrightarrow> bucket t' (snd (createMarker x cov t node suffix)) = bucket t' cov)"
proof -
  have reg: "bucket t (Setup t i node cov) = (bucket t cov)(i \<mapsto> (node, False))" for i
    by (cases t) (simp_all add: SetupSubroutine_def SetupStatement_def SetupBranch_def)
  have others: "t' \<noteq> t \<Longrightarrow> bucket t' (Setup t i node cov) = bucket t' cov" for t' i
    by (cases t; cases t')
       (simp_all add: SetupSubroutine_def SetupStatement_def SetupBranch_def)
  show ?thesis
    by (simp add: createMarker_eq marker_def markerStatement_def reg others)
qed

theorem createMarker_call_and_registration_witness:
  "fst (createMarker sampleExternals emptyCoverage CoverageTypeBranch
          (Node ''*ast.IfStatement'' (at 12 3)) [''2'']) =
     FunctionCallStatement (fake sampleExternals)
       (Ident (Meta \<lparr>TokenType = STRING, Literal = ''coverage.branch'', Line = 0, Position = 0,
                     File = []\<rparr>) ''coverage.branch'')
       [ast_String (Meta \<lparr>TokenType = STRING, Literal = ''branch_12_3_2'', Line = 0,
                           Position = 0, File = []\<rparr>) ''branch_12_3_2'']
   \<and> Branches (snd (createMarker sampleExternals emptyCoverage CoverageTypeBranch
          (Node ''*ast.IfStatement'' (at 12 3)) [''2''])) ''branch_12_3_2'' =
       Some (Node ''*ast.IfStatement'' (at 12 3), False)
   \<and> Statements (snd (createMarker sampleExternals emptyCoverage CoverageTypeBranch
          (Node ''*ast.IfStatement'' (at 12 3)) [''2''])) = Map.empty"
  using createMarker_call_and_registration
          [of sampleExternals emptyCoverage CoverageTypeBranch
              "Node ''*ast.IfStatement'' (at 12 3)" "[''2'']"]
  by (simp add: createMarker_eq marker_def markerStatement_def markerId_def at_def
        Sprint_small sampleExternals_def emptyCoverage_def SetupBranch_def)

text \<open>
  C7. The identifier of every marker is the kind's prefix (\<open>sub\<close>, \<open>stmt\<close> or \<open>branch\<close>),
  an underscore, the line, an underscore and the column of the originating node, followed,
  when a suffix is given, by an underscore and the suffix parts joined by underscores.
  It is a function of the kind, the position and the suffix alone: two nodes at the same
  line and column get the same marker whatever the registry holds, and two runs of the
  pass over the same program leave the same tree, hence the same marker identifiers,
  whatever registry each run starts from, and when the two runs start from registries
  that hold the same identifiers they end with registries that hold the same identifiers.
\<close>

theorem marker_identifier_deterministic:
  "markerIdentifier (fst (createMarker x cov t node suffix)) =
     Some (kindPrefix t @ ''_'' @ Sprint (Line (Token (GetMeta node))) @ ''_''
           @ Sprint (Position (Token (GetMeta node)))
           @ (if suffix = [] then [] else ''_'' @ strings_Join suffix ''_''))
   \<and> (Line (Token (GetMeta node')) = Line (Token (GetMeta node))
        \<and> Position (Token (GetMeta node')) = Position (Token (GetMeta node))
        \<longrightarrow> fst (createMarker x cov' t node' suffix) = fst (createMarker x cov t node suffix))
   \<and> fst (instrumentStatements x cov' ss) = fst (instrumentStatements x cov ss)
   \<and> fst (instrument x cov' vcl) = fst (instrument x cov vcl)
   \<and> (sameIdentifiers cov cov' \<longrightarrow>
        sameIdentifiers (snd (instrument x cov vcl)) (snd (instrument x cov' vcl)))"
proof -
  have sub: "fst (instrumentSubroutine x c d) = fst (instrumentSubroutine x c' d)" for c c' d
    by (cases "(x, c, d)" rule: instrumentSubroutine.cases)
       (simp_all add: split_beta createMarker_eq instrumentStatements_tree)
  have decls: "fst (instrumentDeclarations x c ds) = fst (instrumentDeclarations x c' ds)"
    for c c' ds
  proof (induction ds arbitrary: c c')
    case Nil
    show ?case by simp
  next
    case (Cons d ds)
    show ?case
      using sub [of c d c']
            Cons.IH [of "snd (instrumentSubroutine x c d)" "snd (instrumentSubroutine x c' d)"]
      by (simp add: split_beta)
  qed
  have vcl: "fst (instrument x cov' vcl) = fst (instrument x cov vcl)"
    using decls by (cases vcl) (simp add: split_beta)
  show ?thesis
    by (simp add: createMarker_eq marker_def markerStatement_def markerId_def
          instrumentStatements_tree vcl sameIdentifiers_instrument)
qed

theorem marker_identifier_deterministic_witness:
  "markerIdentifier (fst (createMarker sampleExternals emptyCoverage CoverageTypeStatement
      (Node ''*ast.SetStatement'' (at 7 5)) [])) = Some ''stmt_7_5''
   \<and> markerIdentifier (fst (createMarker sampleExternals emptyCoverage CoverageTypeBranch
      (Node ''*ast.IfExpression'' (at 7 12)) [''true''])) = Some ''branch_7_12_true''
   \<and> fst (createMarker sampleExternals
            (SetupStatement ''stmt_1_1'' (Node ''*ast.LogStatement'' (at 1 1)) emptyCoverage)
            CoverageTypeStatement (Node ''*ast.AddStatement'' (at 7 5)) []) =
       fst (createMarker sampleExternals emptyCoverage CoverageTypeStatement
            (Node ''*ast.SetStatement'' (at 7 5)) [])"
  using marker_identifier_deterministic
          [of sampleExternals emptyCoverage CoverageTypeStatement
              "Node ''*ast.SetStatement'' (at 7 5)" "[]"
              "Node ''*ast.AddStatement'' (at 7 5)"
              "SetupStatement ''stmt_1_1'' (Node ''*ast.LogStatement'' (at 1 1)) emptyCoverage"
              "[]" "VCL []"]
        marker_identifier_deterministic
          [of sampleExternals emptyCoverage CoverageTypeBranch
              "Node ''*ast.IfExpression'' (at 7 12)" "[''true'']"
              "Node ''*ast.IfExpression'' (at 7 12)" emptyCoverage "[]" "VCL []"]
  by (simp add: createMarker_eq marker_def markerStatement_def markerId_def at_def
        Sprint_small)

section \<open>The expression instrumenter: claims C9, C6 and C4\<close>

lemma isMarker_marker [simp]: "isMarker x (marker x t node suffix)"
  by (cases t) (simp_all add: isMarker_def marker_def markerStatement_def)

lemma isSyntheticIf_syntheticIf [simp]: "isSyntheticIf x (syntheticIf x m condition)"
  by (simp add: syntheticIf_def)

lemma marker_not_syntheticIf [simp]: "\<not> isSyntheticIf x (marker x t node suffix)"
  by (simp add: marker_def markerStatement_def)

lemma syntheticIf_not_marker [simp]: "\<not> isMarker x (syntheticIf x m condition)"
  by (simp add: isMarker_def syntheticIf_def)

lemma expressionPre_inlineConditionals:
  "expressionPre x e = map (\<lambda>(m, c). syntheticIf x m c) (inlineConditionals e)"
  "argumentsPre x es = map (\<lambda>(m, c). syntheticIf x m c) (inlineConditionalsOfList es)"
  by (induction e and es rule: inlineConditionals_inlineConditionalsOfList.induct)
     (simp_all add: expressionPre_simps)

lemma instrumentExpression_registry:
  "Subroutines (snd (instrumentExpression x cov e)) = Subroutines cov
   \<and> Statements (snd (instrumentExpression x cov e)) = Statements cov"
  "Subroutines (snd (instrumentArguments x cov es)) = Subroutines cov
   \<and> Statements (snd (instrumentArguments x cov es)) = Statements cov"
proof (induction x cov e and x cov es rule: instrumentExpression_instrumentArguments.induct)
  case (3 x cov m left operator right)
  note IH = "3.IH"(1) "3.IH"(2)[OF refl prod.collapse]
  show ?case by (simp add: split_beta IH)
next
  case (11 x cov arg args)
  note IH = "11.IH"(1) "11.IH"(2)[OF refl prod.collapse]
  show ?case by (simp add: split_beta IH)
qed (simp_all add: instrumentIfExpression_eq SetupBranch_def)

lemma concat_inlineConditionals:
  "concat (map inlineConditionals es) = inlineConditionalsOfList es"
  by (induction es) simp_all

lemma instrumentedStatement_plain:
  "\<not> rewrittenInPlace s \<Longrightarrow>
   instrumentedStatement x s =
     (statementMarker x s
        @ map (\<lambda>(m, c). syntheticIf x m c) (concat (map inlineConditionals (visitedExpressions s))),
      s)"
  by (cases s)
     (simp_all add: instrumentedStatement_simps expressionPre_inlineConditionals
        concat_inlineConditionals split: option.splits)

text \<open>
  C9. The expression instrumenter hands an inline conditional to
  \<open>instrumentIfExpression\<close> and does not descend into its condition, its consequence or its
  alternative: whatever these three hold, the result is the one synthetic conditional of
  the outer expression, and the registry gets the two branch entries of the outer
  expression and nothing else. An inline conditional nested in another one therefore gets
  no marker statement and no registry entry of its own.
\<close>

theorem instrumentExpression_stops_at_inline_conditional:
  "instrumentExpression x cov (IfExpression m condition consequence alternative) =
     ([IfStatement
         (IfStmt ''if'' (fake x) condition
            (Block (fake x)
               [marker x CoverageTypeBranch (Node ''*ast.IfExpression'' m) [''true'']])
            []
            (Some (ElseStmt (fake x)
               (Block (fake x)
                  [marker x CoverageTypeBranch (Node ''*ast.IfExpression'' m) [''false'']]))))],
      SetupBranch (markerId CoverageTypeBranch (Token m) [''false''])
        (Node ''*ast.IfExpression'' m)
        (SetupBranch (markerId CoverageTypeBranch (Token m) [''true''])
           (Node ''*ast.IfExpression'' m) cov))
   \<and> instrumentExpression x cov (IfExpression m condition consequence' alternative') =
       instrumentExpression x cov (IfExpression m condition consequence alternative)"
  by (simp add: instrumentIfExpression_eq syntheticIf_def)

theorem instrumentExpression_stops_at_inline_conditional_witness:
  "length (fst (instrumentExpression sampleExternals emptyCoverage sampleNested)) = 1
   \<and> Branches (snd (instrumentExpression sampleExternals emptyCoverage sampleNested)) =
       [''branch_3_20_true'' \<mapsto> (Node ''*ast.IfExpression'' (at 3 20), False),
        ''branch_3_20_false'' \<mapsto> (Node ''*ast.IfExpression'' (at 3 20), False)]
   \<and> Branches (snd (instrumentExpression sampleExternals emptyCoverage sampleNested))
       ''branch_3_23_true'' = None
   \<and> Branches (snd (instrumentExpression sampleExternals emptyCoverage sampleNested))
       ''branch_3_47_true'' = None"
  using instrumentExpression_stops_at_inline_conditional
          [of sampleExternals emptyCoverage "at 3 20" sampleInner
              "IfExpression (at 3 47) (ast_Ident (Ident (at 3 50) ''req.http.B''))
                 (ast_String (at 3 62) ''p'') (ast_String (at 3 67) ''q'')"
              "ast_String (at 3 73) ''z''"]
  by (simp add: sampleNested_def SetupBranch_def emptyCoverage_def markerId_def at_def
        Sprint_def digits.simps)

text \<open>
  C6, as stated, fails: not every inline conditional inside a statement's expression tree
  gets a synthetic conditional. In \<open>set req.http.Foo = if(if(req.http.A, "x", "y"), ...)\<close>
  the pass puts the statement marker and the synthetic conditional of the outer inline
  conditional (column 20) before the statement, and nothing for the inner one of column 23:
  no synthetic conditional in the list, no entry in the registry.
\<close>

theorem inline_conditional_without_synthetic_statement:
  "fst (instrumentStatements sampleExternals emptyCoverage [sampleSet]) =
     [marker sampleExternals CoverageTypeStatement (Node ''*ast.SetStatement'' (at 3 1)) [],
      syntheticIf sampleExternals (at 3 20) sampleInner,
      sampleSet]
   \<and> syntheticIf sampleExternals (at 3 23) (ast_Ident (Ident (at 3 26) ''req.http.A''))
       \<notin> set (fst (instrumentStatements sampleExternals emptyCoverage [sampleSet]))
   \<and> Branches (snd (instrumentStatements sampleExternals emptyCoverage [sampleSet]))
       ''branch_3_23_true'' = None"
proof -
  have tree: "fst (instrumentStatements sampleExternals emptyCoverage [sampleSet]) =
     [marker sampleExternals CoverageTypeStatement (Node ''*ast.SetStatement'' (at 3 1)) [],
      syntheticIf sampleExternals (at 3 20) sampleInner,
      sampleSet]"
    unfolding instrumentStatements_tree
    by (simp add: instrumentedStatements_simps instrumentedStatement_simps expressionPre_simps
          sampleSet_def sampleNested_def)
  have absent: "syntheticIf sampleExternals (at 3 23) (ast_Ident (Ident (at 3 26) ''req.http.A''))
       \<notin> set (fst (instrumentStatements sampleExternals emptyCoverage [sampleSet]))"
    unfolding tree
    by (simp add: syntheticIf_def marker_def markerStatement_def sampleSet_def sampleInner_def)
  have registry: "Branches (snd (instrumentStatements sampleExternals emptyCoverage [sampleSet]))
       ''branch_3_23_true'' = None"
    by (simp add: sampleSet_def sampleNested_def split_beta createMarker_eq
          instrumentIfExpression_eq SetupBranch_def SetupStatement_def emptyCoverage_def
          markerId_def at_def Sprint_def digits.simps)
  show ?thesis
    using tree absent registry by simp
qed

text \<open>
  C6, amended. For every inline conditional that the expression instrumenter reaches (one
  inside an expression the statement instrumenter visits, not nested in another inline
  conditional) the statement that contains it stays as it is, and one synthetic
  conditional is put before the statement, after the statement's own marker and in the
  order of the traversal. The synthetic conditional has the expression's own condition,
  a consequence that holds the \<open>true\<close> branch marker and nothing else, no else-if, and an
  else that holds the \<open>false\<close> branch marker and nothing else.
\<close>

theorem reached_inline_conditional_spliced_before_statement:
  assumes "\<not> rewrittenInPlace s"
  shows "fst (instrumentStatements x cov (s # rest)) =
           statementMarker x s
           @ map (\<lambda>(m, c). syntheticIf x m c)
               (concat (map inlineConditionals (visitedExpressions s)))
           @ s # fst (instrumentStatements x cov' rest)
         \<and> fst (instrumentExpression x cov e) =
             map (\<lambda>(m, c). syntheticIf x m c) (inlineConditionals e)
         \<and> syntheticIf x m condition =
             IfStatement
               (IfStmt ''if'' (fake x) condition
                  (Block (fake x)
                     [marker x CoverageTypeBranch (Node ''*ast.IfExpression'' m) [''true'']])
                  []
                  (Some (ElseStmt (fake x)
                     (Block (fake x)
                        [marker x CoverageTypeBranch (Node ''*ast.IfExpression'' m)
                           [''false'']]))))"
  using assms
  unfolding instrumentStatements_tree instrumentExpression_tree
  by (simp add: instrumentedStatements_simps instrumentedStatement_plain
        expressionPre_inlineConditionals syntheticIf_def)

theorem reached_inline_conditional_spliced_before_statement_witness:
  "fst (instrumentStatements sampleExternals emptyCoverage
          [LogStatement (at 5 1)
             (InfixExpression (at 5 20)
                (IfExpression (at 5 5) (ast_Ident (Ident (at 5 8) ''req.http.A''))
                   (ast_String (at 5 20) ''a'') (ast_String (at 5 25) ''b''))
                ''+''
                (GroupedExpression (at 5 32)
                   (IfExpression (at 5 33) (ast_Ident (Ident (at 5 36) ''req.http.B''))
                      (ast_String (at 5 48) ''c'') (ast_String (at 5 53) ''d''))))]) =
     [marker sampleExternals CoverageTypeStatement (Node ''*ast.LogStatement'' (at 5 1)) [],
      syntheticIf sampleExternals (at 5 5) (ast_Ident (Ident (at 5 8) ''req.http.A'')),
      syntheticIf sampleExternals (at 5 33) (ast_Ident (Ident (at 5 36) ''req.http.B'')),
      LogStatement (at 5 1)
        (InfixExpression (at 5 20)
           (IfExpression (at 5 5) (ast_Ident (Ident (at 5 8) ''req.http.A''))
              (ast_String (at 5 20) ''a'') (ast_String (at 5 25) ''b''))
           ''+''
           (GroupedExpression (at 5 32)
              (IfExpression (at 5 33) (ast_Ident (Ident (at 5 36) ''req.http.B''))
                 (ast_String (at 5 48) ''c'') (ast_String (at 5 53) ''d''))))]"
  using reached_inline_conditional_spliced_before_statement
          [of "LogStatement (at 5 1)
             (InfixExpression (at 5 20)
                (IfExpression (at 5 5) (ast_Ident (Ident (at 5 8) ''req.http.A''))
                   (ast_String (at 5 20) ''a'') (ast_String (at 5 25) ''b''))
                ''+''
                (GroupedExpression (at 5 32)
                   (IfExpression (at 5 33) (ast_Ident (Ident (at 5 36) ''req.http.B''))
                      (ast_String (at 5 48) ''c'') (ast_String (at 5 53) ''d''))))"
              sampleExternals emptyCoverage "[]" emptyCoverage "ast_String (at 1 1) []"
              "at 1 1" "ast_String (at 1 1) []"]
  unfolding instrumentStatements_tree
  by (simp add: instrumentedStatements_simps)

text \<open>
  C4. For every function-call statement the pass emits no statement marker for the call:
  the statements put before it are those of its arguments, each of them a synthetic
  conditional and none a marker, the call statement itself stays as it is, and the
  registry gets no subroutine and no statement entry. In a list the synthetic conditionals
  stand immediately before the call.
\<close>

theorem function_call_statement_has_no_marker:
  "fst (instrumentStatement x cov (FunctionCallStatement m f arguments)) =
     (fst (instrumentArguments x cov arguments), FunctionCallStatement m f arguments)
   \<and> (\<forall>s \<in> set (fst (instrumentArguments x cov arguments)).
         isSyntheticIf x s \<and> \<not> isMarker x s)
   \<and> Statements (snd (instrumentStatement x cov (FunctionCallStatement m f arguments))) =
       Statements cov
   \<and> Subroutines (snd (instrumentStatement x cov (FunctionCallStatement m f arguments))) =
       Subroutines cov
   \<and> fst (instrumentStatements x cov (FunctionCallStatement m f arguments # rest)) =
       fst (instrumentArguments x cov arguments) @ FunctionCallStatement m f arguments
         # fst (instrumentStatements x cov' rest)"
proof -
  have "isSyntheticIf x s \<and> \<not> isMarker x s"
    if "s \<in> set (fst (instrumentArguments x cov arguments))" for s
    using that by (auto simp: instrumentExpression_tree expressionPre_inlineConditionals)
  moreover have "Statements (snd (instrumentStatement x cov (FunctionCallStatement m f arguments)))
       = Statements cov"
    and "Subroutines (snd (instrumentStatement x cov (FunctionCallStatement m f arguments)))
       = Subroutines cov"
    by (simp_all add: split_beta instrumentFunctionCallStatement_def
          instrumentExpression_registry)
  ultimately show ?thesis
    unfolding instrumentStatements_tree instrumentExpression_tree
    by (simp add: instrumentedStatements_simps instrumentedStatement_simps)
qed

theorem function_call_statement_has_no_marker_witness:
  "fst (instrumentStatements sampleExternals emptyCoverage
          [FunctionCallStatement (at 9 1) (Ident (at 9 1) ''std.collect'')
             [ast_Ident (Ident (at 9 13) ''req.http.Cookie''),
              IfExpression (at 9 30) (ast_Ident (Ident (at 9 33) ''req.http.B''))
                (ast_String (at 9 45) '';'') (ast_String (at 9 50) '','')]]) =
     [syntheticIf sampleExternals (at 9 30) (ast_Ident (Ident (at 9 33) ''req.http.B'')),
      FunctionCallStatement (at 9 1) (Ident (at 9 1) ''std.collect'')
        [ast_Ident (Ident (at 9 13) ''req.http.Cookie''),
         IfExpression (at 9 30) (ast_Ident (Ident (at 9 33) ''req.http.B''))
           (ast_String (at 9 45) '';'') (ast_String (at 9 50) '','')]]
   \<and> Statements (snd (instrumentStatement sampleExternals emptyCoverage
         (FunctionCallStatement (at 9 1) (Ident (at 9 1) ''std.collect'')
            [ast_Ident (Ident (at 9 13) ''req.http.Cookie''),
             IfExpression (at 9 30) (ast_Ident (Ident (at 9 33) ''req.http.B''))
               (ast_String (at 9 45) '';'') (ast_String (at 9 50) '','')]))) = Map.empty"
  using function_call_statement_has_no_marker
          [of sampleExternals emptyCoverage "at 9 1" "Ident (at 9 1) ''std.collect''"
              "[ast_Ident (Ident (at 9 13) ''req.http.Cookie''),
                IfExpression (at 9 30) (ast_Ident (Ident (at 9 33) ''req.http.B''))
                  (ast_String (at 9 45) '';'') (ast_String (at 9 50) '','')]"
              "[]" emptyCoverage]
  unfolding instrumentStatements_tree instrumentExpression_tree
  by (simp add: instrumentedStatements_simps expressionPre_simps emptyCoverage_def)

section \<open>The two branching rewrites: claims C1 and C3\<close>

lemma instrumentedCases_length: "length (instrumentedCases x stmt branch cs) = length cs"
proof (induction cs arbitrary: branch)
  case Nil
  show ?case by (simp add: instrumentedCases_simps)
next
  case (Cons c cs)
  then show ?case by (cases c) (simp add: instrumentedCases_simps)
qed

lemma instrumentedCases_nth:
  "k < length cs \<Longrightarrow>
   instrumentedCases x stmt branch cs ! k =
     (case cs ! k of
        CaseStmt m test ss fallthrough \<Rightarrow>
          CaseStmt m test
            (marker x CoverageTypeBranch stmt [Sprint (branch + int k)]
               # marker x CoverageTypeBranch (Node ''*ast.CaseStatement'' m) []
               # instrumentedStatements x ss)
            fallthrough)"
proof (induction cs arbitrary: branch k)
  case Nil
  then show ?case by simp
next
  case (Cons c cs)
  show ?case
  proof (cases k)
    case 0
    then show ?thesis by (cases c) (simp add: instrumentedCases_simps)
  next
    case (Suc j)
    with Cons.prems have "j < length cs" by simp
    from Cons.IH [OF this, of "branch + 1"] Suc show ?thesis
      by (cases c) (simp add: instrumentedCases_simps ac_simps split: CaseStmt.split)
  qed
qed

text \<open>
  C3. For every switch statement with N case clauses (the default clause among them, at its
  place) the rewritten statement has N case clauses, and the body of the clause at index
  \<open>k\<close> (counted from 0) is: the branch marker of the switch node with the suffix \<open>k + 1\<close>,
  then the branch marker of the case clause itself with no suffix, then the instrumented
  original body of the clause. Meta, test and fall-through flag of each clause, and the
  control expression and the default index of the switch, are as before.
\<close>

theorem switch_cases_get_marker_pairs:
  "\<exists>cases'.
     fst (instrumentSwitchStatement x cov (SwitchStmt m control cases dflt)) =
       SwitchStmt m control cases' dflt
     \<and> length cases' = length cases
     \<and> (\<forall>k < length cases.
           cases' ! k =
             (case cases ! k of
                CaseStmt cm test ss fallthrough \<Rightarrow>
                  CaseStmt cm test
                    (marker x CoverageTypeBranch (Node ''*ast.SwitchStatement'' m)
                       [Sprint (int k + 1)]
                     # marker x CoverageTypeBranch (Node ''*ast.CaseStatement'' cm) []
                     # instrumentedStatements x ss)
                    fallthrough))"
  unfolding instrumentStatements_tree
  by (simp add: instrumentedSwitch_simps instrumentedCases_length instrumentedCases_nth
        add.commute split: CaseStmt.split)

theorem switch_cases_get_marker_pairs_witness:
  "fst (instrumentSwitchStatement sampleExternals emptyCoverage
          (SwitchStmt (at 4 1) (ast_Ident (Ident (at 4 9) ''req.http.X''))
             [CaseStmt (at 5 1) (Some (ast_String (at 5 6) ''1''))
                [OtherStatement ''*ast.BreakStatement'' (at 6 3)] False,
              CaseStmt (at 7 1) None
                [OtherStatement ''*ast.RestartStatement'' (at 8 3)] False] 1)) =
     SwitchStmt (at 4 1) (ast_Ident (Ident (at 4 9) ''req.http.X''))
       [CaseStmt (at 5 1) (Some (ast_String (at 5 6) ''1''))
          [markerStatement sampleExternals CoverageTypeBranch ''branch_4_1_1'',
           markerStatement sampleExternals CoverageTypeBranch ''branch_5_1'',
           markerStatement sampleExternals CoverageTypeStatement ''stmt_6_3'',
           OtherStatement ''*ast.BreakStatement'' (at 6 3)] False,
        CaseStmt (at 7 1) None
          [markerStatement sampleExternals CoverageTypeBranch ''branch_4_1_2'',
           markerStatement sampleExternals CoverageTypeBranch ''branch_7_1'',
           markerStatement sampleExternals CoverageTypeStatement ''stmt_8_3'',
           OtherStatement ''*ast.RestartStatement'' (at 8 3)] False] 1"
  using switch_cases_get_marker_pairs
         [of sampleExternals emptyCoverage "at 4 1" "ast_Ident (Ident (at 4 9) ''req.http.X'')"
             "[CaseStmt (at 5 1) (Some (ast_String (at 5 6) ''1''))
                [OtherStatement ''*ast.BreakStatement'' (at 6 3)] False,
              CaseStmt (at 7 1) None
                [OtherStatement ''*ast.RestartStatement'' (at 8 3)] False]" 1]
  unfolding instrumentStatements_tree
  by (simp add: instrumentedSwitch_simps instrumentedCases_simps instrumentedStatements_simps
        instrumentedStatement_simps marker_def markerId_def at_def Sprint_def digits.simps)



section \<open>The statement instrumenter: claim C5\<close>

lemma instrumentedStatement_inserted:
  "p \<in> set (fst (instrumentedStatement x s)) \<Longrightarrow> isMarker x p \<or> isSyntheticIf x p"
  by (cases s rule: Statement_Node.cases)
     (auto simp: instrumentedStatement_simps expressionPre_inlineConditionals
        split: option.splits)

lemma instrumentedStatements_concat:
  "instrumentedStatements x ss =
     concat (map (\<lambda>s. fst (instrumentedStatement x s) @ [snd (instrumentedStatement x s)]) ss)"
  by (induction ss) (simp_all add: instrumentedStatements_simps)

text \<open>
  C5, as stated, fails: a block statement is neither a conditional chain nor a switch, and
  the pass still rewrites it in place. For the list that holds the block
  \<open>{ restart; }\<close> the result holds the block with the statement marker of \<open>restart\<close> put
  into it, and the block as it was is not in the result.
\<close>

theorem block_statement_is_rewritten_in_place:
  "fst (instrumentStatements sampleExternals emptyCoverage
          [BlockStatement (Block (at 2 1) [OtherStatement ''*ast.RestartStatement'' (at 2 3)])]) =
     [BlockStatement
        (Block (at 2 1)
           [markerStatement sampleExternals CoverageTypeStatement ''stmt_2_3'',
            OtherStatement ''*ast.RestartStatement'' (at 2 3)])]
   \<and> BlockStatement (Block (at 2 1) [OtherStatement ''*ast.RestartStatement'' (at 2 3)])
       \<notin> set (fst (instrumentStatements sampleExternals emptyCoverage
          [BlockStatement (Block (at 2 1) [OtherStatement ''*ast.RestartStatement'' (at 2 3)])]))"
  unfolding instrumentStatements_tree
  by (simp add: instrumentedStatements_simps instrumentedStatement_simps marker_def
        markerId_def at_def Sprint_def digits.simps)

text \<open>
  C5, amended. For every list of statements the result is, statement by statement and in
  the order of the list, the statements inserted for the statement followed by the
  statement itself. Every inserted statement is a marker or a synthetic conditional made
  from an inline conditional. The statement itself is as it was, unless it is a block, a
  conditional or a switch: these three are rewritten in place, a block into the block of
  its instrumented statements, a conditional by the conditional-chain rewrite, a switch by
  the switch rewrite.
\<close>

theorem instrumentStatements_keeps_statements_in_order:
  "fst (instrumentStatements x cov ss) =
     concat (map (\<lambda>s. fst (fst (instrumentStatement x cov' s))
                       @ [snd (fst (instrumentStatement x cov' s))]) ss)
   \<and> (\<forall>s \<in> set ss.
         (\<forall>p \<in> set (fst (fst (instrumentStatement x cov' s))). isMarker x p \<or> isSyntheticIf x p)
         \<and> snd (fst (instrumentStatement x cov' s)) =
             (case s of
                BlockStatement (Block bm body) \<Rightarrow>
                  BlockStatement (Block bm (instrumentedStatements x body))
              | IfStatement t \<Rightarrow> IfStatement (instrumentedIf x t)
              | SwitchStatement t \<Rightarrow> SwitchStatement (instrumentedSwitch x t)
              | _ \<Rightarrow> s))"
proof -
  have kept: "snd (instrumentedStatement x s) =
             (case s of
                BlockStatement (Block bm body) \<Rightarrow>
                  BlockStatement (Block bm (instrumentedStatements x body))
              | IfStatement t \<Rightarrow> IfStatement (instrumentedIf x t)
              | SwitchStatement t \<Rightarrow> SwitchStatement (instrumentedSwitch x t)
              | _ \<Rightarrow> s)" for s
    by (cases s rule: Statement_Node.cases) (simp_all add: instrumentedStatement_simps)
  show ?thesis
    unfolding instrumentStatements_tree
    using instrumentedStatements_concat [of x ss] instrumentedStatement_inserted [of _ x] kept
    by auto
qed

theorem instrumentStatements_keeps_statements_in_order_witness:
  "fst (instrumentStatements sampleExternals emptyCoverage
          [OtherStatement ''*ast.DeclareStatement'' (at 2 3), sampleSet,
           BlockStatement (Block (at 4 3) [])]) =
     [markerStatement sampleExternals CoverageTypeStatement ''stmt_2_3'',
      OtherStatement ''*ast.DeclareStatement'' (at 2 3),
      markerStatement sampleExternals CoverageTypeStatement ''stmt_3_1'',
      syntheticIf sampleExternals (at 3 20) sampleInner,
      sampleSet,
      BlockStatement (Block (at 4 3) [])]"
  using instrumentStatements_keeps_statements_in_order
          [of sampleExternals emptyCoverage
              "[OtherStatement ''*ast.DeclareStatement'' (at 2 3), sampleSet,
                BlockStatement (Block (at 4 3) [])]" emptyCoverage]
  unfolding instrumentStatements_tree
  by (simp add: instrumentedStatements_simps instrumentedStatement_simps expressionPre_simps
        sampleSet_def sampleNested_def marker_def markerId_def at_def Sprint_def digits.simps)

section \<open>Executing the rewritten tree: claim C2\<close>

lemma execStatements_append:
  "execStatements I x (a @ b) st =
     (case execStatements I x a st of
        (st', Next) \<Rightarrow> execStatements I x b st'
      | (st', flow) \<Rightarrow> (st', flow))"
  by (induction a arbitrary: st) (auto split: prod.splits Flow.splits)

lemma Flow_case_same [simp]:
  "(case r of (st', Next) \<Rightarrow> (st', Next) | (st', Break) \<Rightarrow> (st', Break)
    | (st', Exit) \<Rightarrow> (st', Exit)) = (r :: 'a \<times> Flow)"
  by (auto split: prod.splits Flow.splits)

lemma execStatements_single: "execStatements I x [s] st = execStatement I x s st"
  by simp

lemma execStatement_marker:
  "execStatement I x (marker x t node suffix) st =
     ((fst st, snd st @ [markerId t (Token (GetMeta node)) suffix]), Next)"
  by (cases t) (simp_all add: marker_def markerStatement_def isRecordingBuiltin_def)

lemma execStatements_marker:
  "execStatements I x (marker x t node suffix # ss) st =
     execStatements I x ss (fst st, snd st @ [markerId t (Token (GetMeta node)) suffix])"
  by (simp add: execStatement_marker)

lemma execStatement_syntheticIf:
  assumes "\<forall>e s. snd (evalCondition I e s) = s"
  shows "\<exists>h. execStatement I x (syntheticIf x m condition) st = ((fst st, h), Next)"
proof -
  obtain b s' where ev: "evalCondition I condition (fst st) = (b, s')"
    by (cases "evalCondition I condition (fst st)")
  with assms have "s' = fst st"
    by (metis snd_conv)
  with ev show ?thesis
    by (cases b) (simp_all add: syntheticIf_def execStatement_marker)
qed

lemma execStatements_syntheticIfs:
  assumes "\<forall>e s. snd (evalCondition I e s) = s"
  shows "\<exists>h. execStatements I x (map (\<lambda>(m, c). syntheticIf x m c) l) st = ((fst st, h), Next)"
proof (induction l arbitrary: st)
  case Nil
  show ?case by (cases st) simp
next
  case (Cons a l)
  obtain m c where a: "a = (m, c)" by (cases a)
  from execStatement_syntheticIf [OF assms, of x m c st]
  obtain h where h: "execStatement I x (syntheticIf x m c) st = ((fst st, h), Next)" ..
  from Cons.IH [of "(fst st, h)"] show ?case
    by (simp add: a h)
qed

lemma inlineConditionalsOfList_append:
  "inlineConditionalsOfList (a @ b) = inlineConditionalsOfList a @ inlineConditionalsOfList b"
  by (induction a) simp_all

lemma statementMarker_cases:
  "statementMarker x s = []
   \<or> statementMarker x s = [marker x CoverageTypeStatement (Statement_Node s) []]"
  by (cases "(x, s)" rule: statementMarker.cases) simp_all

lemma execStatements_inserted:
  assumes "pureConditions I \<or> concat (map inlineConditionals (visitedExpressions s)) = []"
    and "\<not> rewrittenInPlace s"
  shows "\<exists>h. execStatements I x (fst (instrumentedStatement x s)) st = ((fst st, h), Next)"
proof -
  let ?ifs = "map (\<lambda>(m, c). syntheticIf x m c)
                (concat (map inlineConditionals (visitedExpressions s)))"
  have ifs: "\<exists>h. execStatements I x ?ifs st' = ((fst st', h), Next)" for st'
  proof (cases "pureConditions I")
    case True
    then show ?thesis
      using execStatements_syntheticIfs [of I x _ st'] by (simp add: pureConditions_def)
  next
    case False
    with assms(1) have none: "concat (map inlineConditionals (visitedExpressions s)) = []"
      by blast
    show ?thesis
      unfolding none by (cases st') simp
  qed
  have pre: "fst (instrumentedStatement x s) = statementMarker x s @ ?ifs"
    by (simp add: instrumentedStatement_plain [OF assms(2)])
  from statementMarker_cases [of x s] show ?thesis
  proof
    assume "statementMarker x s = []"
    with ifs [of st] show ?thesis
      by (simp add: pre)
  next
    assume mk: "statementMarker x s = [marker x CoverageTypeStatement (Statement_Node s) []]"
    from ifs [of "(fst st, snd st @ [markerId CoverageTypeStatement
                     (Token (GetMeta (Statement_Node s))) []])"]
    show ?thesis
      by (simp add: pre mk execStatement_marker)
  qed
qed

lemma execStatement_log_irrelevant:
  assumes "\<not> rewrittenInPlace s"
  shows "observable (execStatement I x s (s0, h)) = observable (execStatement I x s (s0, h'))"
proof (cases s)
  case (FunctionCallStatement m f arguments)
  obtain im name where f: "f = Ident im name" by (cases f)
  show ?thesis
    unfolding FunctionCallStatement f
    by (auto simp: observable_def split: prod.splits list.splits Expression.splits)
qed (use assms in \<open>auto simp: observable_def split: prod.splits\<close>)

lemma execStatements_plain:
  assumes "pureConditions I \<or> concat (map inlineConditionals (visitedExpressions s)) = []"
    and "\<not> rewrittenInPlace s"
  shows "observable (execStatements I x
           (fst (instrumentedStatement x s) @ [snd (instrumentedStatement x s)]) (s0, h)) =
         observable (execStatement I x s (s0, h'))"
proof -
  from execStatements_inserted [OF assms, of x "(s0, h)"]
  obtain h1 where
    pre: "execStatements I x (fst (instrumentedStatement x s)) (s0, h) = ((s0, h1), Next)"
    by auto
  have kept: "snd (instrumentedStatement x s) = s"
    by (simp add: instrumentedStatement_plain [OF assms(2)])
  have "execStatements I x
           (fst (instrumentedStatement x s) @ [snd (instrumentedStatement x s)]) (s0, h) =
        execStatement I x s (s0, h1)"
    by (simp only: execStatements_append pre kept execStatements_single prod.case Flow.case)
  then show ?thesis
    using execStatement_log_irrelevant [OF assms(2), of I x s0 h1 h'] by simp
qed

lemma observable_pair [simp]: "observable ((s, h), flow) = (s, flow)"
  by (simp add: observable_def)

lemma observable_sequence:
  assumes "observable a = observable b"
    and "\<And>s h h'. observable (f (s, h)) = observable (g (s, h'))"
  shows "observable (case a of (st', Next) \<Rightarrow> f st' | (st', flow) \<Rightarrow> (st', flow)) =
         observable (case b of (st', Next) \<Rightarrow> g st' | (st', flow) \<Rightarrow> (st', flow))"
proof -
  obtain s h fl where a: "a = ((s, h), fl)" by (cases a) auto
  obtain s' h' fl' where b: "b = ((s', h'), fl')" by (cases b) auto
  from assms(1) have "s' = s" "fl' = fl"
    by (simp_all add: a b observable_def)
  with assms(2) [of s h h'] show ?thesis
    by (cases fl) (simp_all add: a b observable_def)
qed

lemma instrumentedCases_tests:
  "map CaseStmt_Test (instrumentedCases x stmt branch cs) = map CaseStmt_Test cs"
proof (induction cs arbitrary: branch)
  case Nil
  show ?case by (simp add: instrumentedCases_simps)
next
  case (Cons c cs)
  then show ?case by (cases c) (simp add: instrumentedCases_simps)
qed

lemma execution_preserved:
  fixes I :: "('s, 'z) Interpreter_scheme" and cov :: Coverage
  shows "rewritable (pureConditions I) ss \<longrightarrow>
           (\<forall>s h h'. observable (execStatements I x (instrumentedStatements x ss) (s, h)) =
                      observable (execStatements I x ss (s, h')))"
    and "rewritableStatement (pureConditions I) stmt \<longrightarrow>
           (\<forall>s h h'. observable (execStatements I x
                        (fst (instrumentedStatement x stmt) @ [snd (instrumentedStatement x stmt)])
                        (s, h)) =
                      observable (execStatement I x stmt (s, h')))"
    and "rewritableIf (pureConditions I) t \<longrightarrow>
           (\<forall>s h h'. observable (execStatement I x (IfStatement (instrumentedIf x t)) (s, h)) =
                      observable (execStatement I x (IfStatement t) (s, h')))
           \<and> (\<forall>s h h'. observable (execStatements I x
                           (instrumentedStatements x (IfStmt_Statements t)) (s, h)) =
                         observable (execStatements I x (IfStmt_Statements t) (s, h')))"
    and "rewritableClauses (pureConditions I) another \<and> rewritableElse (pureConditions I) alternative
           \<and> (another = [] \<and> alternative = None \<longrightarrow> current = None) \<longrightarrow>
           (\<forall>s h h'. observable (execElseIfs I x []
                         (nestedAnother x node branch current another alternative) (s, h)) =
                      observable (execElseIfs I x another alternative (s, h')))"
    and "rewritableStatement (pureConditions I) (SwitchStatement sw) \<longrightarrow>
           (\<forall>s h h'. observable (execStatement I x (SwitchStatement (instrumentedSwitch x sw))
                         (s, h)) =
                      observable (execStatement I x (SwitchStatement sw) (s, h')))"
    and "rewritableCases (pureConditions I) cs \<longrightarrow>
           (\<forall>k s h h'. observable (enterCase I x k (instrumentedCases x node' branch' cs) (s, h)) =
                        observable (enterCase I x k cs (s, h')))"
proof (induction x cov ss and x cov stmt and x cov t
         and x cov node branch current another alternative and x cov sw
         and x cov node' branch' cs
       rule: statement_induct)
  case (1 x cov)
  show ?case by (simp add: instrumentedStatements_simps observable_def)
next
  case (2 x cov stmt stmts)
  note IH = "2.IH"(1) "2.IH"(2)[OF refl prod.collapse prod.collapse]
  show ?case
  proof (intro impI allI)
    fix s h h'
    assume "rewritable (pureConditions I) (stmt # stmts)"
    then have shaped: "rewritableStatement (pureConditions I) stmt" "rewritable (pureConditions I) stmts" by simp_all
    let ?first = "fst (instrumentedStatement x stmt) @ [snd (instrumentedStatement x stmt)]"
    have lhs: "execStatements I x (instrumentedStatements x (stmt # stmts)) (s, h) =
        (case execStatements I x ?first (s, h) of
           (st', Next) \<Rightarrow> execStatements I x (instrumentedStatements x stmts) st'
         | (st', flow) \<Rightarrow> (st', flow))"
      using execStatements_append [of I x ?first "instrumentedStatements x stmts" "(s, h)"]
      by (simp add: instrumentedStatements_simps)
    have rhs: "execStatements I x (stmt # stmts) (s, h') =
        (case execStatement I x stmt (s, h') of
           (st', Next) \<Rightarrow> execStatements I x stmts st'
         | (st', flow) \<Rightarrow> (st', flow))"
      by simp
    from IH(1) shaped(1)
    have first: "observable (execStatements I x ?first (s, h)) =
                 observable (execStatement I x stmt (s, h'))"
      by blast
    from IH(2) shaped(2)
    have rest: "observable (execStatements I x (instrumentedStatements x stmts) (s, h)) =
                observable (execStatements I x stmts (s, h'))" for s h h'
      by blast
    show "observable (execStatements I x (instrumentedStatements x (stmt # stmts)) (s, h)) =
          observable (execStatements I x (stmt # stmts) (s, h'))"
      unfolding lhs rhs using first rest by (rule observable_sequence)
  qed
next
  case (3 x cov m ss)
  then show ?case
    by (simp add: instrumentedStatement_simps execStatements_single)
next
  case (4 x cov t)
  note IH = "4.IH"[OF refl prod.collapse]
  show ?case
    using IH
    by (simp add: instrumentedStatement_simps execStatement_marker execStatements_single)
next
  case (5 x cov t)
  note IH = "5.IH"[OF refl prod.collapse]
  show ?case
    using IH
    by (simp add: instrumentedStatement_simps execStatement_marker execStatements_single)
next
  case (6 x cov m f arguments)
  show ?case
    by (intro impI allI execStatements_plain) (simp_all add: concat_inlineConditionals inlineConditionalsOfList_append)
next
  case (7 x cov m code argument)
  show ?case
    by (intro impI allI execStatements_plain) (simp_all add: concat_inlineConditionals inlineConditionalsOfList_append)
next
  case (8 x cov m e)
  show ?case
    by (intro impI allI execStatements_plain) (simp_all add: concat_inlineConditionals inlineConditionalsOfList_append)
next
  case (9 x cov m i operator v)
  show ?case
    by (intro impI allI execStatements_plain) (simp_all add: concat_inlineConditionals inlineConditionalsOfList_append)
next
  case (10 x cov m i operator v)
  show ?case
    by (intro impI allI execStatements_plain) (simp_all add: concat_inlineConditionals inlineConditionalsOfList_append)
next
  case (11 x cov m v)
  show ?case
    by (intro impI allI execStatements_plain) (simp_all add: concat_inlineConditionals inlineConditionalsOfList_append)
next
  case (12 x cov m v)
  show ?case
    by (intro impI allI execStatements_plain) (simp_all add: concat_inlineConditionals inlineConditionalsOfList_append)
next
  case (13 x cov m v)
  show ?case
    by (intro impI allI execStatements_plain) (simp_all add: concat_inlineConditionals inlineConditionalsOfList_append)
next
  case (14 x cov k m)
  show ?case
    by (intro impI allI execStatements_plain) (simp_all add: concat_inlineConditionals inlineConditionalsOfList_append)
next
  case (15 x cov keyword m condition bm ss another alternative)
  note IH = "15.IH"(1)[OF refl refl prod.collapse]
            "15.IH"(2)[OF refl refl prod.collapse refl prod.collapse]
  show ?case
  proof (intro impI)
    assume "rewritableIf (pureConditions I) (IfStmt keyword m condition (Block bm ss) another alternative)"
    then have shaped: "rewritable (pureConditions I) ss" "rewritableClauses (pureConditions I) another"
        "rewritableElse (pureConditions I) alternative"
      by simp_all
    from IH(1) shaped(1)
    have body: "observable (execStatements I x (instrumentedStatements x ss) (s, h)) =
                observable (execStatements I x ss (s, h'))" for s h h'
      by blast
    from IH(2) shaped(2,3)
    have rest: "observable (execElseIfs I x []
                  (nestedAnother x (Node ''*ast.IfStatement'' m) 1 alternative another alternative)
                  (s, h)) =
                observable (execElseIfs I x another alternative (s, h'))" for s h h'
      by blast
    have chain: "observable (execStatement I x
              (IfStatement (instrumentedIf x
                 (IfStmt keyword m condition (Block bm ss) another alternative))) (s, h)) =
            observable (execStatement I x
              (IfStatement (IfStmt keyword m condition (Block bm ss) another alternative))
              (s, h'))" for s h h'
    proof -
      obtain b s1 where ev: "evalCondition I condition s = (b, s1)"
        by (cases "evalCondition I condition s")
      show ?thesis
        by (cases b)
           (simp_all add: instrumentedIf_simps ev execStatement_marker body rest)
    qed
    from chain body
    show "(\<forall>s h h'. observable (execStatement I x
              (IfStatement (instrumentedIf x
                 (IfStmt keyword m condition (Block bm ss) another alternative))) (s, h)) =
            observable (execStatement I x
              (IfStatement (IfStmt keyword m condition (Block bm ss) another alternative))
              (s, h')))
          \<and> (\<forall>s h h'. observable (execStatements I x
                (instrumentedStatements x
                   (IfStmt_Statements
                      (IfStmt keyword m condition (Block bm ss) another alternative))) (s, h)) =
              observable (execStatements I x
                (IfStmt_Statements
                   (IfStmt keyword m condition (Block bm ss) another alternative)) (s, h')))"
      by simp
  qed
next
  case (16 x cov stmt branch current)
  show ?case by (simp add: nestedAnother_simps observable_def)
next
  case (17 x cov stmt branch current m bm ss)
  note IH = "17.IH"[OF refl prod.collapse]
  show ?case
    using IH by (simp add: nestedAnother_simps execStatement_marker)
next
  case (18 x cov stmt branch current keyword m condition consequence another' alternative' rest
        alternative)
  note IH1 = "18.IH"(1)
  note IH2 = "18.IH"(2)[OF refl prod.collapse refl prod.collapse,
                unfolded instrumentStatements_tree]
  show ?case
  proof (intro impI allI)
    fix s h h'
    assume prem: "rewritableClauses (pureConditions I)
                    (IfStmt keyword m condition consequence another' alternative' # rest)
                  \<and> rewritableElse (pureConditions I) alternative
                  \<and> (IfStmt keyword m condition consequence another' alternative' # rest = []
                       \<and> alternative = None \<longrightarrow> current = None)"
    obtain bm ss where cons: "consequence = Block bm ss" by (cases consequence)
    from prem have shaped: "another' = []" "alternative' = None" "rewritable (pureConditions I) ss"
        "rewritableClauses (pureConditions I) rest" "rewritableElse (pureConditions I) alternative"
      by (simp_all add: cons)
    let ?a = "instrumentedIf x (IfStmt ''if'' m condition (Block bm ss) another' alternative')"
    have a: "?a = IfStmt ''if'' m condition
                    (Block bm (marker x CoverageTypeBranch (Node ''*ast.IfStatement'' m) [Sprint 1]
                                 # instrumentedStatements x ss))
                    [] None"
      by (simp add: shaped instrumentedIf_simps nestedAnother_simps)
    from IH1 [unfolded cons] shaped
    have body: "observable (execStatements I x (instrumentedStatements x ss) (s, h)) =
                observable (execStatements I x ss (s, h'))" for s h h'
      by simp
    have alt_none: "IfStmt_Alternative ?a = None"
      by (simp add: a)
    from IH2 [unfolded cons] shaped(4,5) alt_none
    have tail: "observable (execElseIfs I x []
                  (nestedAnother x stmt (branch + 1) (IfStmt_Alternative ?a) rest alternative)
                  (s, h)) =
                observable (execElseIfs I x rest alternative (s, h'))" for s h h'
      by blast
    obtain b s1 where ev: "evalCondition I condition s = (b, s1)"
      by (cases "evalCondition I condition s")
    have nested: "nestedAnother x stmt branch current
               (IfStmt keyword m condition (Block bm ss) another' alternative' # rest) alternative =
          Some (ElseStmt (fake x) (Block (fake x)
            [marker x CoverageTypeBranch stmt [Sprint (branch + 1)],
             IfStatement
               (IfStmt ''if'' m condition
                  (Block bm (marker x CoverageTypeBranch (Node ''*ast.IfStatement'' m) [Sprint 1]
                               # instrumentedStatements x ss))
                  []
                  (nestedAnother x stmt (branch + 1) (IfStmt_Alternative ?a) rest alternative))]))"
      by (simp add: nestedAnother_simps) (simp add: a)
    show "observable (execElseIfs I x []
            (nestedAnother x stmt branch current
               (IfStmt keyword m condition consequence another' alternative' # rest) alternative)
            (s, h)) =
          observable (execElseIfs I x
            (IfStmt keyword m condition consequence another' alternative' # rest) alternative
            (s, h'))"
      unfolding cons nested
      by (cases b) (simp_all add: ev execStatement_marker body tail)
  qed
next
  case (19 x cov m control cases dflt)
  show ?case
  proof (intro impI allI)
    fix s h h'
    assume "rewritableStatement (pureConditions I) (SwitchStatement (SwitchStmt m control cases dflt))"
    with "19.IH"
    have enter: "observable (enterCase I x k
                    (instrumentedCases x (Node ''*ast.SwitchStatement'' m) 1 cases) (s, h)) =
                 observable (enterCase I x k cases (s, h'))" for k s h h'
      by simp
    obtain k s1 where sel: "selectCase I control (map CaseStmt_Test cases) dflt s = (k, s1)"
      by (cases "selectCase I control (map CaseStmt_Test cases) dflt s")
    show "observable (execStatement I x
            (SwitchStatement (instrumentedSwitch x (SwitchStmt m control cases dflt))) (s, h)) =
          observable (execStatement I x (SwitchStatement (SwitchStmt m control cases dflt))
            (s, h'))"
      by (cases k)
         (simp_all add: instrumentedSwitch_simps instrumentedCases_tests sel enter)
  qed
next
  case (20 x cov stmt branch)
  show ?case by (simp add: instrumentedCases_simps observable_def)
next
  case (21 x cov stmt branch m test ss fallthrough cases)
  note IH = "21.IH"(1)[OF refl prod.collapse refl prod.collapse]
            "21.IH"(2)[OF refl prod.collapse refl prod.collapse refl prod.collapse]
  show ?case
  proof (intro impI allI)
    fix k s h h'
    assume "rewritableCases (pureConditions I) (CaseStmt m test ss fallthrough # cases)"
    then have shaped: "rewritable (pureConditions I) ss" "rewritableCases (pureConditions I) cases" by simp_all
    from IH(1) shaped
    have body: "observable (execStatements I x (instrumentedStatements x ss) (s, h)) =
                observable (execStatements I x ss (s, h'))" for s h h'
      by blast
    from IH(2) shaped
    have tail: "observable (enterCase I x k (instrumentedCases x stmt (branch + 1) cases) (s, h)) =
                observable (enterCase I x k cases (s, h'))" for k s h h'
      by blast
    show "observable (enterCase I x k
            (instrumentedCases x stmt branch (CaseStmt m test ss fallthrough # cases)) (s, h)) =
          observable (enterCase I x k (CaseStmt m test ss fallthrough # cases) (s, h'))"
    proof (cases k)
      case (Suc j)
      then show ?thesis by (simp add: instrumentedCases_simps tail)
    next
      case 0
      let ?h = "h @ [markerId CoverageTypeBranch (Token (GetMeta stmt)) [Sprint branch],
                     markerId CoverageTypeBranch (Token m) []]"
      obtain s1 h1 f1 where r1:
        "execStatements I x (instrumentedStatements x ss) (s, ?h) = ((s1, h1), f1)"
        by (cases "execStatements I x (instrumentedStatements x ss) (s, ?h)") auto
      obtain s2 h2 f2 where r2: "execStatements I x ss (s, h') = ((s2, h2), f2)"
        by (cases "execStatements I x ss (s, h')") auto
      from body [of s ?h h'] have same: "s2 = s1" "f2 = f1"
        unfolding r1 r2 by simp_all
      show ?thesis
        using tail [of 0 s1 h1 h2]
        by (cases f1)
           (simp_all add: 0 instrumentedCases_simps execStatement_marker r1 r2 same)
    qed
  qed
qed

text \<open>
  C2, as stated, fails. The body of the sample conditional assigns an inline conditional,
  so the rewritten body holds the synthetic conditional of it, which evaluates a condition
  once more. With an interpreter whose conditions have an observable effect (here they
  count their evaluations) the original chain ends with one evaluation, the rewritten one
  with two.
\<close>

theorem rewritten_chain_evaluates_a_condition_once_more:
  "observable (execStatement countingInterpreter sampleExternals
      (IfStatement (fst (instrumentIfStatement sampleExternals emptyCoverage sampleIf)))
      (0, [])) = (2, Next)
   \<and> observable (execStatement countingInterpreter sampleExternals (IfStatement sampleIf)
      (0, [])) = (1, Next)"
  unfolding instrumentStatements_tree
  by (simp add: sampleIf_def sampleSet_def sampleNested_def instrumentedIf_simps
        nestedAnother_simps instrumentedStatements_simps instrumentedStatement_simps
        expressionPre_simps syntheticIf_def execStatement_marker countingInterpreter_def)

text \<open>
  C2, amended. For every conditional chain as the parser builds it, every interpreter and
  every state, executing the chain rewritten by the conditional-chain rewriter ends in the
  same observable state and leaves the statement in the same way as executing the original
  chain, the log of markers apart, provided that evaluating a condition has no observable
  effect or that no statement of the chain holds an inline conditional the instrumenter
  reaches. Conditions and statements are those of the interpreter at hand, whatever they
  do: in particular an interpreter may record in its state every condition it evaluates
  and every statement it executes, so the conditions are evaluated in the same order with
  the same short-circuiting, and the same bodies are executed.
\<close>

theorem rewritten_chain_executes_like_the_original:
  assumes "rewritableIf (pureConditions I) t"
  shows "observable (execStatement I x (IfStatement (fst (instrumentIfStatement x cov t))) (s, h)) =
         observable (execStatement I x (IfStatement t) (s, h))"
  using assms execution_preserved(3) [of I t x]
  by (simp add: instrumentStatements_tree)

theorem rewritten_chain_executes_like_the_original_witness:
  "rewritableIf (pureConditions tracingInterpreter) sampleChain
   \<and> observable (execStatement tracingInterpreter sampleExternals
        (IfStatement (fst (instrumentIfStatement sampleExternals emptyCoverage sampleChain)))
        ([], [])) =
       ([''a'', ''true'', ''*ast.LogStatement''], Next)"
  using rewritten_chain_executes_like_the_original
          [of tracingInterpreter sampleChain sampleExternals emptyCoverage "[]" "[]"]
  by (simp add: sampleChain_def tracingInterpreter_def)

section \<open>Properties of testing.fixed\_time\<close>

lemma Testing_fixed_time_Validate_None:
  "Testing_fixed_time_Validate args = None \<longleftrightarrow> length args = 1"
  by (simp add: Testing_fixed_time_Validate_def)

text \<open>
  C10. For every argument list, the built-in returns a typed error (a \<open>TestingError\<close>) and
  leaves \<open>ctx.FixedTime\<close> as it was exactly when the list does not hold exactly one value,
  or the value's type is none of INTEGER, TIME and STRING, or it is a STRING that the
  layout \<open>2006-01-02 15:04:05\<close> does not parse. In every other case it returns Null
  with no error and installs the fixed clock: the Unix time of an INTEGER, the TIME
  itself, or the parsed STRING.
\<close>

theorem Testing_fixed_time_error_iff:
  fixes time_Parse :: "string \<Rightarrow> string \<Rightarrow> error + Time"
  defines "bad args \<equiv>
     length args \<noteq> 1
     \<or> Type (args ! 0) \<notin> {IntegerType, TimeType, StringType}
     \<or> (\<exists>s. args ! 0 = value_String s \<and> isl (time_Parse ''2006-01-02 15:04:05'' s))"
  shows "(bad args \<longrightarrow>
            (\<exists>f as. snd (fst (Testing_fixed_time time_Parse ctx args)) = Some (TestingError f as))
            \<and> snd (Testing_fixed_time time_Parse ctx args) = ctx)
       \<and> (\<not> bad args \<longrightarrow>
            fst (Testing_fixed_time time_Parse ctx args) = (Some value_Null, None)
            \<and> (\<exists>a. args = [a] \<and>
                 snd (Testing_fixed_time time_Parse ctx args) =
                   ctx\<lparr>FixedTime :=
                     Some (case a of
                             value_Integer v \<Rightarrow> time_Unix v 0
                           | value_Time t \<Rightarrow> t
                           | value_String s \<Rightarrow> projr (time_Parse ''2006-01-02 15:04:05'' s))\<rparr>))"
proof (cases "length args = 1")
  case False
  then show ?thesis
    by (simp add: bad_def Testing_fixed_time_Validate_def)
next
  case True
  then obtain a where a: "args = [a]"
    by (cases args) auto
  show ?thesis
    unfolding a bad_def
    by (cases a)
       (auto simp: Testing_fixed_time_Validate_def expectedTimeFormat_def
             split: sum.splits)
qed

theorem Testing_fixed_time_error_iff_witness:
  "fst (Testing_fixed_time (\<lambda>l s. if s = ''2020-01-01 00:00:00'' then Inr (Time 1577836800 0)
                                   else Inl (ParseError l s))
          \<lparr>FixedTime = None\<rparr> [value_String ''2020-01-01 00:00:00'']) = (Some value_Null, None)
   \<and> (\<exists>f as. snd (fst (Testing_fixed_time
          (\<lambda>l s. if s = ''2020-01-01 00:00:00'' then Inr (Time 1577836800 0)
                  else Inl (ParseError l s))
          \<lparr>FixedTime = None\<rparr> [value_String ''tomorrow''])) = Some (TestingError f as))"
  using Testing_fixed_time_error_iff
          [of "[value_String ''2020-01-01 00:00:00'']"
              "\<lambda>l s. if s = ''2020-01-01 00:00:00'' then Inr (Time 1577836800 0)
                     else Inl (ParseError l s)" "\<lparr>FixedTime = None\<rparr>"]
        Testing_fixed_time_error_iff
          [of "[value_String ''tomorrow'']"
              "\<lambda>l s. if s = ''2020-01-01 00:00:00'' then Inr (Time 1577836800 0)
                     else Inl (ParseError l s)" "\<lparr>FixedTime = None\<rparr>"]
  by simp

end
